theory Spec2Isabelle
  imports Complex_Main "HOL-Library.Word"
begin

section \<open>Numbers and vectors\<close>

text \<open>
  The program computes with C \<open>float\<close>. The embedding reads every \<open>float\<close> as a
  \<^typ>\<open>real\<close>: rounding and overflow are outside the model. The one place that relies
  on IEEE infinities, the slab test of \<open>intersect_cube\<close>, computes with infinities and
  NaN (type \<open>ieee\<close> below). C \<open>int\<close> values
  (indices, sizes) are \<^typ>\<open>int\<close>; the one place that shifts (\<open>main\<close>) and the
  \<open>uint32_t\<close> generation counter use 32-bit words.
\<close>

definition maxf :: "real \<Rightarrow> real \<Rightarrow> real" where
  "maxf x y = (if x > y then x else y)"

definition minf :: "real \<Rightarrow> real \<Rightarrow> real" where
  "minf x y = (if x < y then x else y)"

definition absf :: "real \<Rightarrow> real" where
  "absf x = (if x < 0 then - x else x)"

text \<open>
  \<open>clamp(x, min, max)\<close>. The source asserts \<open>min <= max\<close>; every call passes the
  constants \<open>(0, 1)\<close> or \<open>(-1, 1)\<close>, so the assertion never fires.
\<close>

definition clamp :: "real \<Rightarrow> real \<Rightarrow> real \<Rightarrow> real" where
  "clamp x mn mx = (if x < mn then mn else if x > mx then mx else x)"

text \<open>
  \<open>Vector3\<close>, \<open>Ray\<close> and \<open>Sphere\<close> are declared in \<open>vector.h\<close>. The fields
  \<open>x, y, z\<close> are the selectors \<open>vx, vy, vz\<close>.
\<close>

datatype Vector3 = Vector3 (vx: real) (vy: real) (vz: real)

datatype Ray = Ray (origin: Vector3) (direction: Vector3)

datatype Sphere = Sphere (center: Vector3) (radius: real)

text \<open>
  Modelled from the spec: the vector helpers of \<open>vector.h\<close> (\<open>combine\<close>, \<open>dotv\<close>,
  \<open>scale\<close>, \<open>mulv\<close>, \<open>normalize\<close>), which the data model lists as linear combination
  \<open>a\<cdot>\<alpha> + b\<cdot>\<beta>\<close>, dot product, scalar scale, componentwise multiplication, length and
  normalization.
\<close>

definition combine :: "Vector3 \<Rightarrow> Vector3 \<Rightarrow> real \<Rightarrow> real \<Rightarrow> Vector3" where
  "combine a b \<alpha> \<beta> =
     Vector3 (vx a * \<alpha> + vx b * \<beta>) (vy a * \<alpha> + vy b * \<beta>) (vz a * \<alpha> + vz b * \<beta>)"

definition dotv :: "Vector3 \<Rightarrow> Vector3 \<Rightarrow> real" where
  "dotv a b = vx a * vx b + vy a * vy b + vz a * vz b"

definition scale :: "Vector3 \<Rightarrow> real \<Rightarrow> Vector3" where
  "scale a s = Vector3 (vx a * s) (vy a * s) (vz a * s)"

definition mulv :: "Vector3 \<Rightarrow> Vector3 \<Rightarrow> Vector3" where
  "mulv a b = Vector3 (vx a * vx b) (vy a * vy b) (vz a * vz b)"

definition lengthv :: "Vector3 \<Rightarrow> real" where
  "lengthv a = sqrt (dotv a a)"

definition normalize :: "Vector3 \<Rightarrow> Vector3" where
  "normalize a = Vector3 (vx a / lengthv a) (vy a / lengthv a) (vz a / lengthv a)"

definition maxv :: "Vector3 \<Rightarrow> Vector3 \<Rightarrow> Vector3" where
  "maxv a b = Vector3 (maxf (vx a) (vx b)) (maxf (vy a) (vy b)) (maxf (vz a) (vz b))"

definition vec_from_scalar :: "real \<Rightarrow> Vector3" where
  "vec_from_scalar s = Vector3 s s s"

definition fresnelSchlick :: "real \<Rightarrow> Vector3 \<Rightarrow> Vector3" where
  "fresnelSchlick u f0 =
     combine f0 (combine (vec_from_scalar 1) f0 1 (- 1)) 1 ((1 - u) ^ 5)"

text \<open>Conversion of a \<open>float\<close> to \<open>int\<close> truncates towards zero.\<close>

definition trunc :: "real \<Rightarrow> int" where
  "trunc r = (if r < 0 then \<lceil>r\<rceil> else \<lfloor>r\<rfloor>)"

text \<open>Division of C \<open>int\<close> values truncates towards zero.\<close>

definition c_div :: "int \<Rightarrow> int \<Rightarrow> int" where
  "c_div a b = (if (a < 0) = (b < 0) then \<bar>a\<bar> div \<bar>b\<bar> else - (\<bar>a\<bar> div \<bar>b\<bar>))"

section \<open>Material and errors\<close>

record Material =
  albedo :: Vector3
  roughness :: real
  reflectance :: real
  metallic :: real
  emission_power :: real
  emission_color :: Vector3

text \<open>
  \<open>abort()\<close> after a diagnostic on \<open>stderr\<close> or \<open>stdout\<close> is the error value
  \<open>Abort msg\<close>; a read or write outside an allocated buffer is \<open>OutOfBounds\<close>.
\<close>

datatype error = Abort string | OutOfBounds

section \<open>Cubemap\<close>

datatype CubeFace = CF_FRONT | CF_BACK | CF_LEFT | CF_RIGHT | CF_TOP | CF_BOTTOM

text \<open>
  \<open>data[6]\<close> holds one byte buffer per face; a buffer is read by offset.
\<close>

record Cubemap =
  data :: "CubeFace \<Rightarrow> int \<Rightarrow> 8 word"
  w :: int
  h :: int
  chan :: int

definition faces_order :: "CubeFace list" where
  "faces_order = [CF_FRONT, CF_BACK, CF_LEFT, CF_RIGHT, CF_TOP, CF_BOTTOM]"

text \<open>
  \<open>load_cubemap\<close>: \<open>stbi_load\<close> is the image decoder (a collaborator); it yields
  \<open>None\<close> for \<open>NULL\<close>, else the pixels with width, height and channel count.
  The first file that fails to load aborts with a diagnostic naming it.
\<close>

fun load_faces ::
  "(string \<Rightarrow> ((int \<Rightarrow> 8 word) \<times> int \<times> int \<times> int) option) \<Rightarrow> (CubeFace \<Rightarrow> string) \<Rightarrow>
   CubeFace list \<Rightarrow> Cubemap \<Rightarrow> error + Cubemap" where
  "load_faces stbi_load files [] c = Inr c"
| "load_faces stbi_load files (i # rest) c =
     (case stbi_load (files i) of
        None \<Rightarrow> Inl (Abort (''Couldn't load image '' @ [CHR 0x27] @ files i @ [CHR 0x27, CHR 0x0A]))
      | Some (d, cw, ch, cc) \<Rightarrow>
          load_faces stbi_load files rest
            (c\<lparr>data := (data c)(i := d), w := cw, h := ch, chan := cc\<rparr>))"

definition load_cubemap ::
  "(string \<Rightarrow> ((int \<Rightarrow> 8 word) \<times> int \<times> int \<times> int) option) \<Rightarrow> Cubemap \<Rightarrow>
   (CubeFace \<Rightarrow> string) \<Rightarrow> error + Cubemap" where
  "load_cubemap stbi_load c files = load_faces stbi_load files faces_order c"

text \<open>
  The first half of \<open>sample_cubemap\<close>: the face and the raw \<open>u, v\<close> chosen by the
  three-way branch on the absolute components (\<open>eps\<close> is the constant 0).
\<close>

definition cubemap_face_uv :: "Vector3 \<Rightarrow> CubeFace \<times> real \<times> real" where
  "cubemap_face_uv dir =
     (let abs_x = absf (vx dir); abs_y = absf (vy dir); abs_z = absf (vz dir); eps = 0 in
      if abs_x > abs_y \<and> abs_x > abs_z then
        (if vx dir > 0
         then (CF_RIGHT, - vz dir / (abs_x + eps), - vy dir / (abs_x + eps))
         else (CF_LEFT, vz dir / (abs_x + eps), - vy dir / (abs_x + eps)))
      else if abs_y > abs_x \<and> abs_y > abs_z then
        (if vy dir > 0
         then (CF_TOP, vx dir / (abs_y + eps), vz dir / (abs_y + eps))
         else (CF_BOTTOM, vx dir / (abs_y + eps), - vz dir / (abs_y + eps)))
      else
        (if vz dir > 0
         then (CF_FRONT, vx dir / (abs_z + eps), - vy dir / (abs_z + eps))
         else (CF_BACK, - vx dir / (abs_z + eps), - vy dir / (abs_z + eps))))"

definition sample_cubemap :: "Cubemap \<Rightarrow> Vector3 \<Rightarrow> Vector3" where
  "sample_cubemap c dir =
     (case cubemap_face_uv dir of (face, u0, v0) \<Rightarrow>
        let u1 = clamp u0 (- 1) 1;
            v1 = clamp v0 (- 1) 1;
            u = 0.5 * (u1 + 1);
            v = 0.5 * (v1 + 1);
            x = trunc (u * real_of_int (w c - 1));
            y = trunc (v * real_of_int (h c - 1));
            color = (y * w c + x) * chan c
        in Vector3 (real (unat (data c face color)) / 255)
                   (real (unat (data c face (color + 1))) / 255)
                   (real (unat (data c face (color + 2))) / 255))"

section \<open>Primitives and the scene store\<close>

text \<open>The fields \<open>origin\<close> and \<open>size\<close> of \<open>Cube\<close> are \<open>cube_origin\<close>, \<open>cube_size\<close>.\<close>

datatype Cube = Cube (cube_origin: Vector3) (cube_size: Vector3)

text \<open>
  The slab test of \<open>intersect_cube\<close> divides by direction components that may be zero
  and relies on what IEEE division returns then. Its quotients are therefore values of
  \<open>ieee\<close>: a finite real, an infinity or NaN. The zero of the reals is read as \<open>+0\<close>.
\<close>

datatype ieee = Fin real | PInf | MInf | NaN

text \<open>The quotient of two finite values.\<close>

definition fdiv :: "real \<Rightarrow> real \<Rightarrow> ieee" where
  "fdiv n d =
     (if d \<noteq> 0 then Fin (n / d)
      else if n > 0 then PInf
      else if n < 0 then MInf
      else NaN)"

text \<open>The comparisons \<open><\<close> and \<open>>\<close>: every comparison with NaN is false.\<close>

fun flt :: "ieee \<Rightarrow> ieee \<Rightarrow> bool" where
  "flt (Fin a) (Fin b) = (a < b)"
| "flt (Fin a) PInf = True"
| "flt MInf (Fin b) = True"
| "flt MInf PInf = True"
| "flt _ _ = False"

definition fgt :: "ieee \<Rightarrow> ieee \<Rightarrow> bool" where
  "fgt x y = flt y x"

text \<open>
  \<open>intersect_cube\<close> with all three out-pointers given: the result is \<open>None\<close> for
  \<open>false\<close>, else \<open>(tnear, tfar, normal)\<close>.
\<close>

definition intersect_cube :: "Ray \<Rightarrow> Cube \<Rightarrow> (ieee \<times> ieee \<times> Vector3) option" where
  "intersect_cube r c =
     (let a = cube_origin c;
          b = combine (cube_origin c) (cube_size c) 1 1;
          (txmin0, txmax0) =
            (if vx (direction r) \<ge> 0
             then (fdiv (vx a - vx (origin r)) (vx (direction r)),
                   fdiv (vx b - vx (origin r)) (vx (direction r)))
             else (fdiv (vx b - vx (origin r)) (vx (direction r)),
                   fdiv (vx a - vx (origin r)) (vx (direction r))));
          (tymin, tymax) =
            (if vy (direction r) \<ge> 0
             then (fdiv (vy a - vy (origin r)) (vy (direction r)),
                   fdiv (vy b - vy (origin r)) (vy (direction r)))
             else (fdiv (vy b - vy (origin r)) (vy (direction r)),
                   fdiv (vy a - vy (origin r)) (vy (direction r))))
      in if fgt txmin0 tymax \<or> fgt tymin txmax0 then None
         else
           let (txmin1, hit_axis1) = (if fgt tymin txmin0 then (tymin, 1::nat) else (txmin0, 0));
               txmax1 = (if flt tymax txmax0 then tymax else txmax0);
               (tzmin, tzmax) =
                 (if vz (direction r) \<ge> 0
                  then (fdiv (vz a - vz (origin r)) (vz (direction r)),
                        fdiv (vz b - vz (origin r)) (vz (direction r)))
                  else (fdiv (vz b - vz (origin r)) (vz (direction r)),
                        fdiv (vz a - vz (origin r)) (vz (direction r))))
           in if fgt txmin1 tzmax \<or> fgt tzmin txmax1 then None
              else
                let (txmin2, hit_axis2) = (if fgt tzmin txmin1 then (tzmin, 2::nat) else (txmin1, hit_axis1));
                    txmax2 = (if flt tzmax txmax1 then tzmax else txmax1);
                    normal =
                      (if hit_axis2 = 0 then
                         (if vx (direction r) > 0 then Vector3 (- 1) 0 0 else Vector3 1 0 0)
                       else if hit_axis2 = 1 then
                         (if vy (direction r) > 0 then Vector3 0 (- 1) 0 else Vector3 0 1 0)
                       else
                         (if vz (direction r) > 0 then Vector3 0 0 (- 1) else Vector3 0 0 1))
                in Some (txmin2, txmax2, normal))"

text \<open>\<open>intersect_sphere\<close>: \<open>None\<close> for \<open>false\<close>, else the value stored through \<open>t\<close>.\<close>

definition intersect_sphere :: "Ray \<Rightarrow> Sphere \<Rightarrow> real option" where
  "intersect_sphere r s =
     (let oc = combine (center s) (origin r) 1 (- 1);
          a = dotv (direction r) (direction r);
          b = - 2 * dotv oc (direction r);
          c = dotv oc oc - radius s * radius s;
          discr = b * b - 4 * a * c
      in if discr > 0 then
           let s0 = (- b + sqrt discr) / (2 * a);
               s1 = (- b - sqrt discr) / (2 * a);
               (s0', s1') = (if s0 > s1 then (s1, s0) else (s0, s1))
           in if s0' < 0 then (if s1' < 0 then None else Some s1') else Some s0'
         else None)"

text \<open>
  The quadratic that \<open>intersect_sphere\<close> solves, with the coefficients \<open>a, b, c\<close>
  as the function computes them: its discriminant, and what it means for \<open>t\<close> to
  be a root.
\<close>

definition sphere_coeffs :: "Ray \<Rightarrow> Sphere \<Rightarrow> real \<times> real \<times> real" where
  "sphere_coeffs r s =
     (let oc = combine (center s) (origin r) 1 (- 1);
          a = dotv (direction r) (direction r);
          b = - 2 * dotv oc (direction r);
          c = dotv oc oc - radius s * radius s
      in (a, b, c))"

definition sphere_discr :: "Ray \<Rightarrow> Sphere \<Rightarrow> real" where
  "sphere_discr r s = (case sphere_coeffs r s of (a, b, c) \<Rightarrow> b * b - 4 * a * c)"

definition sphere_root :: "Ray \<Rightarrow> Sphere \<Rightarrow> real \<Rightarrow> bool" where
  "sphere_root r s t = (case sphere_coeffs r s of (a, b, c) \<Rightarrow> a * t * t + b * t + c = 0)"

text \<open>The vector from the centre of the sphere to the point of the ray at parameter \<open>t\<close>.\<close>

definition from_center :: "Ray \<Rightarrow> Sphere \<Rightarrow> real \<Rightarrow> Vector3" where
  "from_center r s t = combine (combine (origin r) (direction r) 1 t) (center s) 1 (- 1)"

text \<open>
  \<open>Object\<close> is a type tag, a union of the two primitives and a material: one
  constructor per tag.
\<close>

datatype Object =
    OBJECT_CUBE Cube (material: Material)
  | OBJECT_SPHERE Sphere (material: Material)

definition cube :: "Material \<Rightarrow> Vector3 \<Rightarrow> Vector3 \<Rightarrow> Object" where
  "cube m org sz = OBJECT_CUBE (Cube org sz) m"

definition sphere :: "Material \<Rightarrow> Vector3 \<Rightarrow> real \<Rightarrow> Object" where
  "sphere m org rad = OBJECT_SPHERE (Sphere org rad) m"

text \<open>
  \<open>intersect_object\<close> with both out-pointers given: \<open>(t, normal)\<close> on a hit. The
  \<open>t\<close> of a box is a quotient of the slab test; the \<open>t\<close> of a sphere is finite (a
  positive discriminant excludes a zero direction).
\<close>

fun intersect_object :: "Ray \<Rightarrow> Object \<Rightarrow> (ieee \<times> Vector3) option" where
  "intersect_object r (OBJECT_CUBE c m) =
     (case intersect_cube r c of
        None \<Rightarrow> None
      | Some (tnear, tfar, normal) \<Rightarrow> Some (tnear, normal))"
| "intersect_object r (OBJECT_SPHERE s m) =
     (case intersect_sphere r s of
        None \<Rightarrow> None
      | Some t \<Rightarrow>
          let hit_point = combine (origin r) (direction r) 1 t
          in Some (Fin t, normalize (combine hit_point (center s) 1 (- 1))))"

definition MAX_OBJECTS :: int where
  "MAX_OBJECTS = 1024"

text \<open>The globals \<open>objects[MAX_OBJECTS]\<close> and \<open>num_objects\<close>.\<close>

record scene =
  objects :: "Object list"
  num_objects :: int

definition zero_material :: Material where
  "zero_material =
     \<lparr>albedo = Vector3 0 0 0, roughness = 0, reflectance = 0, metallic = 0,
      emission_power = 0, emission_color = Vector3 0 0 0\<rparr>"

text \<open>A zero-initialised array element: tag 0 is \<open>OBJECT_CUBE\<close>.\<close>

definition zero_object :: Object where
  "zero_object = OBJECT_CUBE (Cube (Vector3 0 0 0) (Vector3 0 0 0)) zero_material"

definition initial_scene :: scene where
  "initial_scene = \<lparr>objects = replicate (nat MAX_OBJECTS) zero_object, num_objects = 0\<rparr>"

text \<open>
  \<open>add_object\<close> returns \<open>void\<close>: the result is the store after the call. The function
  has no failing branch, so the result is always \<open>Inr\<close>.
\<close>

definition add_object :: "Object \<Rightarrow> scene \<Rightarrow> error + scene" where
  "add_object ob s =
     (if num_objects s < MAX_OBJECTS
      then Inr (s\<lparr>objects := (objects s)[nat (num_objects s) := ob],
                 num_objects := num_objects s + 1\<rparr>)
      else Inr s)"

text \<open>A store filled to capacity with one repeated object.\<close>

definition full_scene :: scene where
  "full_scene = \<lparr>objects = replicate (nat MAX_OBJECTS) zero_object, num_objects = MAX_OBJECTS\<rparr>"

section \<open>Tracing a ray\<close>

record HitInfo =
  distance :: real
  point :: Vector3
  normal :: Vector3
  object :: int

definition FLT_MAX :: real where
  "FLT_MAX = 340282346638528859811704183484516925440"

text \<open>
  One iteration of the loop of \<open>trace_ray\<close> on \<open>(nearest_t, nearest_object, nearest_normal)\<close>.
  The test \<open>t >= 0 && t < nearest_t\<close> fails for \<open>-inf\<close> (not \<open>>= 0\<close>), for \<open>+inf\<close> (not
  below the finite \<open>nearest_t\<close>) and for NaN: only a finite \<open>t\<close> is ever accepted.
\<close>

definition trace_step ::
  "scene \<Rightarrow> Ray \<Rightarrow> nat \<Rightarrow> real \<times> int \<times> Vector3 \<Rightarrow> real \<times> int \<times> Vector3" where
  "trace_step s ray i acc =
     (case acc of (nearest_t, nearest_object, nearest_normal) \<Rightarrow>
        (case intersect_object ray (objects s ! i) of
           None \<Rightarrow> acc
         | Some (t, n) \<Rightarrow>
             (case t of
                Fin tv \<Rightarrow> if tv \<ge> 0 \<and> tv < nearest_t then (tv, int i, n) else acc
              | PInf \<Rightarrow> acc
              | MInf \<Rightarrow> acc
              | NaN \<Rightarrow> acc)))"

text \<open>
  \<open>nearest_normal\<close> is uninitialised until the first accepted hit and is read only
  when \<open>nearest_object\<close> is not \<open>-1\<close>; it starts as the zero vector here.
\<close>

definition trace_ray :: "scene \<Rightarrow> Ray \<Rightarrow> HitInfo" where
  "trace_ray s ray0 =
     (let ray = Ray (origin ray0) (normalize (direction ray0));
          (nearest_t, nearest_object, nearest_normal) =
             fold (trace_step s ray) [0..<nat (num_objects s)] (FLT_MAX, - 1, Vector3 0 0 0)
      in if nearest_object = - 1
         then \<lparr>distance = - 1, point = Vector3 0 0 0, normal = Vector3 0 0 0, object = - 1\<rparr>
         else \<lparr>distance = nearest_t,
               point = combine (origin ray) (direction ray) 1 nearest_t,
               normal = nearest_normal,
               object = nearest_object\<rparr>)"

definition origin_of :: "Object \<Rightarrow> Vector3" where
  "origin_of ob =
     (case ob of
        OBJECT_SPHERE sp m \<Rightarrow> center sp
      | OBJECT_CUBE cb m \<Rightarrow> combine (cube_origin cb) (cube_size cb) 1 0.5)"

section \<open>Worker start-up in \<open>main\<close>\<close>

text \<open>
  The body of the spawning loop for worker \<open>i\<close>: \<open>1 << i\<close> on a 32-bit \<open>int\<close>,
  then the reset guard.
\<close>

definition init_scale_of :: "nat \<Rightarrow> 32 word" where
  "init_scale_of i =
     (let init_scale = push_bit i 1 in
      if 16 <s init_scale then 1 else init_scale)"

text \<open>The arguments handed to the 16 threads, in spawning order.\<close>

definition main_worker_scales :: "int list" where
  "main_worker_scales = map (\<lambda>i. sint (init_scale_of i)) [0..<16]"

section \<open>Sample inputs\<close>

text \<open>A ray from the world origin along \<open>+Z\<close>.\<close>

definition ray_z :: Ray where
  "ray_z = Ray (Vector3 0 0 0) (Vector3 0 0 1)"

text \<open>Scenes of one object: a unit sphere around the world origin, one in front of it, and a box.\<close>

definition unit_sphere_scene :: scene where
  "unit_sphere_scene =
     \<lparr>objects = (replicate (nat MAX_OBJECTS) zero_object)[0 := sphere zero_material (Vector3 0 0 0) 1],
      num_objects = 1\<rparr>"

definition front_sphere_scene :: scene where
  "front_sphere_scene =
     \<lparr>objects = (replicate (nat MAX_OBJECTS) zero_object)[0 := sphere zero_material (Vector3 0 0 3) 1],
      num_objects = 1\<rparr>"

definition ray_diag :: Ray where
  "ray_diag = Ray (Vector3 0 0 0) (Vector3 2 3 6)"

definition cube_scene :: scene where
  "cube_scene =
     \<lparr>objects = (replicate (nat MAX_OBJECTS) zero_object)
                   [0 := cube zero_material (Vector3 1 1 5) (Vector3 2 2 2)],
      num_objects = 1\<rparr>"

section \<open>Random numbers\<close>

text \<open>
  \<open>rand()\<close> is the C library's generator: \<open>rand_seq\<close> is the sequence of values it
  returns, in call order, and the generator state is the number of calls made so far.
  \<open>RAND_MAX\<close> is the platform's constant.
\<close>

definition RAND_MAX :: int where
  "RAND_MAX = 2147483647"

definition random_float :: "(nat \<Rightarrow> int) \<Rightarrow> nat \<Rightarrow> real \<times> nat" where
  "random_float rand_seq g = (real_of_int (rand_seq g) / real_of_int RAND_MAX, Suc g)"

definition random_vector :: "(nat \<Rightarrow> int) \<Rightarrow> nat \<Rightarrow> Vector3 \<times> nat" where
  "random_vector rand_seq g =
     (let (fx, g1) = random_float rand_seq g;
          (fy, g2) = random_float rand_seq g1;
          (fz, g3) = random_float rand_seq g2
      in (Vector3 (fx * 2 - 1) (fy * 2 - 1) (fz * 2 - 1), g3))"

definition random_direction :: "(nat \<Rightarrow> int) \<Rightarrow> nat \<Rightarrow> Vector3 \<times> nat" where
  "random_direction rand_seq g =
     (let (v, g') = random_vector rand_seq g in (normalize v, g'))"

definition reflect :: "Vector3 \<Rightarrow> Vector3 \<Rightarrow> Vector3" where
  "reflect dir nrm = (let f = - 2 * dotv nrm dir in combine dir nrm 1 f)"

section \<open>The radiance estimator \<open>pixel\<close>\<close>

definition iszerof :: "real \<Rightarrow> bool" where
  "iszerof f \<longleftrightarrow> f < 0.0001 \<and> f > - 0.0001"

definition iszerov :: "Vector3 \<Rightarrow> bool" where
  "iszerov v \<longleftrightarrow> iszerof (vx v) \<and> iszerof (vy v) \<and> iszerof (vz v)"

definition avgv :: "Vector3 \<Rightarrow> real" where
  "avgv v = (vx v + vy v + vz v) / 3"

text \<open>
  What \<open>pixel\<close> reads besides its arguments: the scene store, the global \<open>skybox\<close>,
  the camera collaborator's \<open>ray_through_screen_at\<close> (declared in \<open>camera.h\<close>, defined
  outside the sources at hand) and the random sequence.
\<close>

record world =
  the_scene :: scene
  skybox :: Cubemap
  ray_through_screen_at :: "real \<Rightarrow> real \<Rightarrow> real \<Rightarrow> Ray"
  rand_seq :: "nat \<Rightarrow> int"

text \<open>
  One iteration \<open>k\<close> of the shadow-ray loop, on the pair of \<open>sampled_light_color\<close> and
  the generator state.
\<close>

definition light_sample ::
  "world \<Rightarrow> HitInfo \<Rightarrow> Vector3 \<Rightarrow> nat \<Rightarrow> Vector3 \<times> nat \<Rightarrow> Vector3 \<times> nat" where
  "light_sample wd hit dir_to_light_source k acc =
     (case acc of (sampled_light_color, g) \<Rightarrow>
        let spread = 0.5;
            (rand_dir0, g1) = random_direction (rand_seq wd) g;
            rand_dir = (if dotv rand_dir0 (normal hit) < 0 then scale rand_dir0 (- 1) else rand_dir0);
            sample_dir = normalize (combine rand_dir dir_to_light_source spread 1);
            sample_ray = Ray (combine (point hit) sample_dir 1 0.001) sample_dir;
            hit2 = trace_ray (the_scene wd) sample_ray
        in if object hit2 \<noteq> - 1
           then (combine sampled_light_color
                   (emission_color (material (objects (the_scene wd) ! nat (object hit2)))) 1
                   (emission_power (material (objects (the_scene wd) ! nat (object hit2)))), g1)
           else (sampled_light_color, g1))"

text \<open>
  The loop over \<open>j\<close>, on the indices still to visit: \<open>continue\<close> moves to the next
  index, \<open>break\<close> returns.
\<close>

fun light_scan :: "world \<Rightarrow> HitInfo \<Rightarrow> nat list \<Rightarrow> Vector3 \<times> nat \<Rightarrow> Vector3 \<times> nat" where
  "light_scan wd hit [] acc = acc"
| "light_scan wd hit (j # js) acc =
     (if emission_power (material (objects (the_scene wd) ! j)) = 0 \<or> int j = object hit
      then light_scan wd hit js acc
      else
        let dir_to_light_source = combine (origin_of (objects (the_scene wd) ! j)) (point hit) 1 (- 1);
            samples = 5;
            (sampled_light_color, g) = fold (light_sample wd hit dir_to_light_source) [0..<samples] acc
        in (scale sampled_light_color (1 / real samples), g))"

text \<open>The variables that the bounce loop of \<open>pixel\<close> carries, with the generator state.\<close>

record path_state =
  in_ray :: Ray
  contrib :: Vector3
  result :: Vector3
  rng :: nat

text \<open>
  One iteration of the bounce loop. The flag is \<open>False\<close> when the iteration ends in
  \<open>break\<close>. \<open>random_float()\<close> in the specular test is called only when
  \<open>metallic > 0.001\<close> is false.
\<close>

definition bounce :: "world \<Rightarrow> path_state \<Rightarrow> bool \<times> path_state" where
  "bounce wd st =
     (let hit = trace_ray (the_scene wd) (in_ray st) in
      if object hit = - 1 then
        (let sky_color = sample_cubemap (skybox wd) (normalize (direction (in_ray st)))
         in (False, st\<lparr>result := combine (result st) (mulv sky_color (contrib st)) 1 1\<rparr>))
      else
        (let (sampled_light_color, g1) =
               light_scan wd hit [0..<nat (num_objects (the_scene wd))] (Vector3 0 0 0, rng st);
             mat = material (objects (the_scene wd) ! nat (object hit));
             v = scale (direction (in_ray st)) (- 1);
             n = normal hit;
             NoV = clamp (dotv n v) 0 1;
             f0_dielectric = vec_from_scalar (0.16 * reflectance mat * reflectance mat);
             f0_metal = albedo mat;
             f0 = combine f0_dielectric f0_metal (1 - metallic mat) (metallic mat);
             F = fresnelSchlick NoV f0;
             (rand_dir0, g2) = random_direction (rand_seq wd) g1;
             rand_dir = (if dotv rand_dir0 (normal hit) < 0 then scale rand_dir0 (- 1) else rand_dir0);
             result1 = combine (result st)
                         (mulv (scale (emission_color mat) (emission_power mat)) (contrib st)) 1 1;
             (specular, g3) =
               (if metallic mat > 0.001 then (True, g2)
                else (let (u, g') = random_float (rand_seq wd) g2 in (u \<le> avgv F, g')));
             reflect_dir = reflect (direction (in_ray st)) (scale (normal hit) (- 1));
             out_dir = (if specular then normalize (combine rand_dir reflect_dir (roughness mat) 1)
                        else rand_dir);
             contrib1 = (if specular then contrib st
                         else mulv (contrib st) (scale (albedo mat) (1 - metallic mat)));
             out_ray = Ray (combine (point hit) out_dir 1 0.001) out_dir;
             light_sample_weight = 0.05;
             result2 = (if \<not> iszerov sampled_light_color
                        then combine result1 (mulv sampled_light_color contrib1) 1 light_sample_weight
                        else result1);
             contrib2 = (if \<not> iszerov sampled_light_color
                         then scale contrib1 (1 - light_sample_weight)
                         else contrib1)
         in (True, \<lparr>in_ray = out_ray, contrib = contrib2, result = result2, rng = g3\<rparr>)))"

text \<open>At most \<open>n\<close> further iterations of the bounce loop.\<close>

fun pixel_loop :: "world \<Rightarrow> nat \<Rightarrow> path_state \<Rightarrow> path_state" where
  "pixel_loop wd 0 st = st"
| "pixel_loop wd (Suc n) st =
     (case bounce wd st of
        (True, st') \<Rightarrow> pixel_loop wd n st'
      | (False, st') \<Rightarrow> st')"

text \<open>The state on entry to the loop. The two NaN assertions cannot fire on reals.\<close>

definition pixel_start :: "world \<Rightarrow> real \<Rightarrow> real \<Rightarrow> real \<Rightarrow> nat \<Rightarrow> path_state" where
  "pixel_start wd x y aspect_ratio g =
     \<lparr>in_ray = ray_through_screen_at wd x y aspect_ratio,
      contrib = Vector3 1 1 1, result = Vector3 0 0 0, rng = g\<rparr>"

text \<open>\<open>pixel\<close> returns the colour; the generator state after the call comes with it.\<close>

definition pixel :: "world \<Rightarrow> real \<Rightarrow> real \<Rightarrow> real \<Rightarrow> nat \<Rightarrow> Vector3 \<times> nat" where
  "pixel wd x y aspect_ratio g =
     (let st = pixel_loop wd 5 (pixel_start wd x y aspect_ratio g)
      in (Vector3 (clamp (vx (result st)) 0 1) (clamp (vy (result st)) 0 1)
                  (clamp (vz (result st)) 0 1),
          rng st))"

section \<open>Vocabulary of the properties\<close>

text \<open>Every component in \<open>[0,1]\<close>; componentwise order.\<close>

definition unit_range :: "Vector3 \<Rightarrow> bool" where
  "unit_range v \<longleftrightarrow> 0 \<le> vx v \<and> vx v \<le> 1 \<and> 0 \<le> vy v \<and> vy v \<le> 1 \<and> 0 \<le> vz v \<and> vz v \<le> 1"



section \<open>The direct-light estimate as the specification words it\<close>

text \<open>
  The first object in scan order that has nonzero \<open>emission_power\<close> and is not the hit
  object.
\<close>

definition emitter_target :: "scene \<Rightarrow> HitInfo \<Rightarrow> nat option" where
  "emitter_target s hit =
     find (\<lambda>j. emission_power (material (objects s ! j)) \<noteq> 0 \<and> int j \<noteq> object hit)
       [0..<nat (num_objects s)]"

text \<open>
  Shadow ray number \<open>k\<close> towards emitter \<open>j\<close>: a random direction (three draws, starting
  at draw \<open>g + 3 k\<close>) mirrored into the hemisphere of the hit normal, scaled by the spread
  0.5 and added to the vector from the hit point to the emitter's origin; the ray starts
  0.001 along that normalised direction.
\<close>

definition shadow_ray :: "world \<Rightarrow> HitInfo \<Rightarrow> nat \<Rightarrow> nat \<Rightarrow> nat \<Rightarrow> Ray" where
  "shadow_ray wd hit j g k =
     (let r = fst (random_direction (rand_seq wd) (g + 3 * k));
          jitter = (if dotv r (normal hit) < 0 then scale r (- 1) else r);
          to_light = combine (origin_of (objects (the_scene wd) ! j)) (point hit) 1 (- 1);
          d = normalize (combine jitter to_light 0.5 1)
      in Ray (combine (point hit) d 1 0.001) d)"

text \<open>
  What one shadow ray contributes: nothing when it escapes, else the emission colour of
  whichever object it hits, scaled by that object's emission power.
\<close>

definition shadow_light :: "scene \<Rightarrow> Ray \<Rightarrow> Vector3" where
  "shadow_light s ray =
     (let hit2 = trace_ray s ray in
      if object hit2 = - 1 then Vector3 0 0 0
      else scale (emission_color (material (objects s ! nat (object hit2))))
                 (emission_power (material (objects s ! nat (object hit2)))))"

definition sum_vec :: "Vector3 list \<Rightarrow> Vector3" where
  "sum_vec vs = Vector3 (sum_list (map vx vs)) (sum_list (map vy vs)) (sum_list (map vz vs))"

text \<open>The sum over the 5 shadow rays divided by 5; zero when there is no emitter to target.\<close>

definition direct_light_spec :: "world \<Rightarrow> HitInfo \<Rightarrow> nat \<Rightarrow> Vector3" where
  "direct_light_spec wd hit g =
     (case emitter_target (the_scene wd) hit of
        None \<Rightarrow> Vector3 0 0 0
      | Some j \<Rightarrow>
          scale (sum_vec (map (\<lambda>k. shadow_light (the_scene wd) (shadow_ray wd hit j g k)) [0..<5]))
                (1 / 5))"

section \<open>A sample world\<close>





section \<open>Accumulation: workers, presenter, invalidation\<close>

text \<open>
  The globals behind \<open>frame_mutex\<close>, with \<open>screen_w\<close> and \<open>screen_h\<close>. A buffer
  pointer is \<open>None\<close> for \<open>NULL\<close>, else the cells of the allocation.
\<close>

record shared =
  accum_generation :: "32 word"
  accum :: "Vector3 list option"
  frame :: "Vector3 list option"
  frame_w :: int
  frame_h :: int
  accum_count :: real
  screen_w :: int
  screen_h :: int

text \<open>The locals of \<open>worker\<close>; its variable \<open>scale\<close> is the field \<open>tile_scale\<close>.\<close>

record worker_state =
  local_accum_generation :: "32 word"
  local_accum :: "Vector3 list option"
  local_accum_count :: real
  local_frame_w :: int
  local_frame_h :: int
  tile_scale :: int

definition shared_init :: "int \<Rightarrow> int \<Rightarrow> shared" where
  "shared_init sw sh =
     \<lparr>accum_generation = 0, accum = None, frame = None, frame_w = 0, frame_h = 0,
      accum_count = 0, screen_w = sw, screen_h = sh\<rparr>"

definition worker_init :: "int \<Rightarrow> worker_state" where
  "worker_init init_scale =
     \<lparr>local_accum_generation = 0, local_accum = None, local_accum_count = 0,
      local_frame_w = 0, local_frame_h = 0, tile_scale = init_scale\<rparr>"

text \<open>A loop whose body can fail: the first failure ends it.\<close>

fun loop_err :: "('i \<Rightarrow> 'a \<Rightarrow> error + 'a) \<Rightarrow> 'i list \<Rightarrow> 'a \<Rightarrow> error + 'a" where
  "loop_err body [] a = Inr a"
| "loop_err body (i # rest) a =
     (case body i a of Inl e \<Rightarrow> Inl e | Inr a' \<Rightarrow> loop_err body rest a')"

text \<open>
  The merge loop of the worker, \<open>accum[i] = combine(accum[i], local_accum[i], 1, 1)\<close>:
  a read past the end of either buffer is \<open>OutOfBounds\<close>.
\<close>

definition merge_cell :: "Vector3 list \<Rightarrow> nat \<Rightarrow> Vector3 list \<Rightarrow> error + Vector3 list" where
  "merge_cell loc i acc =
     (if i < length acc \<and> i < length loc
      then Inr (acc[i := combine (acc ! i) (loc ! i) 1 1])
      else Inl OutOfBounds)"

text \<open>\<open>memset(p, 0, sizeof(Vector3) * n)\<close> on a buffer: the first \<open>n\<close> cells become zero.\<close>

definition memset_zero :: "Vector3 list option \<Rightarrow> int \<Rightarrow> error + Vector3 list option" where
  "memset_zero p n =
     (case p of
        None \<Rightarrow> (if n \<le> 0 then Inr None else Inl OutOfBounds)
      | Some buf \<Rightarrow>
          if n \<le> int (length buf)
          then Inr (Some (replicate (nat n) (Vector3 0 0 0) @ drop (nat n) buf))
          else Inl OutOfBounds)"

text \<open>
  The worker's critical section (between \<open>os_mutex_lock\<close> and \<open>os_mutex_unlock\<close>):
  the new globals, the new locals and the flag \<open>resize\<close>.
\<close>

definition worker_merge :: "shared \<Rightarrow> worker_state \<Rightarrow> error + (shared \<times> worker_state \<times> bool)" where
  "worker_merge sh wk =
     (case
        (case (accum sh, local_accum wk) of
           (Some acc, Some loc) \<Rightarrow>
             if local_accum_generation wk = accum_generation sh then
               (case loop_err (merge_cell loc) [0..<nat (frame_w sh * frame_h sh)] acc of
                  Inl e \<Rightarrow> Inl e
                | Inr acc' \<Rightarrow>
                    Inr (sh\<lparr>accum := Some acc',
                            accum_count := accum_count sh + local_accum_count wk\<rparr>))
             else Inr sh
         | _ \<Rightarrow> Inr sh)
      of
        Inl e \<Rightarrow> Inl e
      | Inr sh' \<Rightarrow>
          (case memset_zero (local_accum wk) (local_frame_w wk * local_frame_h wk) of
             Inl e \<Rightarrow> Inl e
           | Inr loc0 \<Rightarrow>
               Inr (sh',
                    wk\<lparr>local_accum := loc0,
                       local_accum_generation := accum_generation sh',
                       local_frame_w := frame_w sh',
                       local_frame_h := frame_h sh',
                       local_accum_count := 0\<rparr>,
                    local_frame_w wk \<noteq> frame_w sh' \<or> local_frame_h wk \<noteq> frame_h sh')))"

text \<open>
  \<open>local_accum[pixel_index] = combine(local_accum[pixel_index], color, 1, scale2inv)\<close>;
  an index outside the buffer is \<open>OutOfBounds\<close>.
\<close>

definition splat :: "int \<Rightarrow> Vector3 \<Rightarrow> real \<Rightarrow> Vector3 list \<Rightarrow> error + Vector3 list" where
  "splat pixel_index color scale2inv buf =
     (if 0 \<le> pixel_index \<and> pixel_index < int (length buf)
      then Inr (buf[nat pixel_index := combine (buf ! nat pixel_index) color 1 scale2inv])
      else Inl OutOfBounds)"

text \<open>
  The clipped tile of coarse cell \<open>(i, j)\<close>: the pixel indices written by the two inner
  loops, in order. \<open>stride\<close> is the value of the global \<open>frame_w\<close> that the index
  expression reads; the worker holds no lock at this point.
\<close>

definition tile_indices :: "worker_state \<Rightarrow> int \<Rightarrow> nat \<Rightarrow> nat \<Rightarrow> int list" where
  "tile_indices wk stride j i =
     (let tile_w = (if tile_scale wk > local_frame_w wk - int i * tile_scale wk
                    then local_frame_w wk - int i * tile_scale wk else tile_scale wk);
          tile_h = (if tile_scale wk > local_frame_h wk - int j * tile_scale wk
                    then local_frame_h wk - int j * tile_scale wk else tile_scale wk)
      in concat (map (\<lambda>g. map (\<lambda>t.
             let real_i = int i * tile_scale wk + int t;
                 real_j = int j * tile_scale wk + int g
             in real_j * stride + real_i) [0..<nat tile_w]) [0..<nat tile_h]))"

text \<open>The body of the loop over the coarse cells, on the buffer and the generator state.\<close>

definition worker_cell ::
  "world \<Rightarrow> worker_state \<Rightarrow> int \<Rightarrow> nat \<Rightarrow> nat \<Rightarrow> Vector3 list \<times> nat \<Rightarrow> error + (Vector3 list \<times> nat)" where
  "worker_cell wd wk stride j i bg =
     (case bg of (buf, g) \<Rightarrow>
        let scale2inv = 1 / real_of_int (tile_scale wk * tile_scale wk);
            lowres_frame_h = c_div (local_frame_h wk) (tile_scale wk);
            lowres_frame_w = c_div (local_frame_w wk) (tile_scale wk);
            aspect_ratio = real_of_int (local_frame_w wk) / real_of_int (local_frame_h wk);
            u = 1 - real i / real_of_int (lowres_frame_w - 1);
            v = 1 - real j / real_of_int (lowres_frame_h - 1);
            (color, g') = pixel wd u v aspect_ratio g
        in (case loop_err (\<lambda>pixel_index. splat pixel_index color scale2inv)
                   (tile_indices wk stride j i) buf of
              Inl e \<Rightarrow> Inl e
            | Inr buf' \<Rightarrow> Inr (buf', g')))"

text \<open>
  The rest of the worker's iteration, outside the mutex: reallocation when \<open>resize\<close> is
  set (\<open>malloc_ok\<close> tells whether \<open>malloc\<close> returns a buffer), then one pass over the
  coarse grid.
\<close>

definition worker_pass ::
  "world \<Rightarrow> bool \<Rightarrow> int \<Rightarrow> bool \<Rightarrow> worker_state \<Rightarrow> nat \<Rightarrow> error + (worker_state \<times> nat)" where
  "worker_pass wd malloc_ok stride resize wk g =
     (if resize \<and> \<not> malloc_ok then Inl (Abort (''OUT OF MEMORY'' @ [CHR 0x0A]))
      else
        let loc = (if resize
                   then Some (replicate (nat (local_frame_w wk * local_frame_h wk)) (Vector3 0 0 0))
                   else local_accum wk)
        in (case loc of
              None \<Rightarrow> Inr (wk\<lparr>local_accum := loc\<rparr>, g)
            | Some buf \<Rightarrow>
                let scale2inv = 1 / real_of_int (tile_scale wk * tile_scale wk);
                    lowres_frame_h = c_div (local_frame_h wk) (tile_scale wk);
                    lowres_frame_w = c_div (local_frame_w wk) (tile_scale wk)
                in (case loop_err (\<lambda>j. loop_err (\<lambda>i. worker_cell wd wk stride j i)
                                           [0..<nat lowres_frame_w])
                           [0..<nat lowres_frame_h] (buf, g) of
                      Inl e \<Rightarrow> Inl e
                    | Inr (buf', g') \<Rightarrow>
                        Inr (wk\<lparr>local_accum := Some buf',
                                local_accum_count := local_accum_count wk + scale2inv\<rparr>, g'))))"

definition invalidate_accumulation :: "shared \<Rightarrow> shared" where
  "invalidate_accumulation sh =
     sh\<lparr>accum_count := 0, accum_generation := accum_generation sh + 1\<rparr>"

text \<open>Reading and writing one cell through a buffer pointer; \<open>NULL\<close> has no cells.\<close>

definition peek :: "Vector3 list option \<Rightarrow> int \<Rightarrow> error + Vector3" where
  "peek p idx =
     (case p of
        None \<Rightarrow> Inl OutOfBounds
      | Some buf \<Rightarrow> if 0 \<le> idx \<and> idx < int (length buf) then Inr (buf ! nat idx) else Inl OutOfBounds)"

definition poke :: "Vector3 list option \<Rightarrow> int \<Rightarrow> Vector3 \<Rightarrow> error + Vector3 list option" where
  "poke p idx v =
     (case p of
        None \<Rightarrow> Inl OutOfBounds
      | Some buf \<Rightarrow>
          if 0 \<le> idx \<and> idx < int (length buf) then Inr (Some (buf[nat idx := v]))
          else Inl OutOfBounds)"

text \<open>
  The coarse preview of \<open>update_frame_texture\<close>: cell \<open>(i, j)\<close> overwrites its 16 by 16
  tile of \<open>accum\<close> with the scaled colour.
\<close>

definition seed_cell ::
  "world \<Rightarrow> int \<Rightarrow> int \<Rightarrow> int \<Rightarrow> nat \<Rightarrow> nat \<Rightarrow> Vector3 list option \<times> nat \<Rightarrow>
   error + (Vector3 list option \<times> nat)" where
  "seed_cell wd fw fake_frame_w fake_frame_h j i bg =
     (case bg of (acc, g) \<Rightarrow>
        let seed_scale = 16;
            scale2inv = 1 / real_of_int (seed_scale * seed_scale);
            aspect_ratio = real_of_int fake_frame_w / real_of_int fake_frame_h;
            u = 1 - real i / real_of_int (fake_frame_w - 1);
            v = 1 - real j / real_of_int (fake_frame_h - 1);
            (color, g') = pixel wd u v aspect_ratio g
        in (case loop_err (\<lambda>pixel_index a. poke a pixel_index (scale color scale2inv))
                   (concat (map (\<lambda>gg. map (\<lambda>t. (int j * seed_scale + int gg) * fw
                                                 + (int i * seed_scale + int t))
                                    [0..<nat seed_scale]) [0..<nat seed_scale])) acc of
              Inl e \<Rightarrow> Inl e
            | Inr acc' \<Rightarrow> Inr (acc', g')))"

text \<open>The last loop: \<open>frame[pixel_index] = scale(accum[pixel_index], 1.0f / accum_count)\<close>.\<close>

definition normalize_cell ::
  "Vector3 list option \<Rightarrow> real \<Rightarrow> int \<Rightarrow> Vector3 list option \<Rightarrow> error + Vector3 list option" where
  "normalize_cell acc cnt pixel_index fr =
     (case peek acc pixel_index of
        Inl e \<Rightarrow> Inl e
      | Inr a \<Rightarrow> poke fr pixel_index (scale a (1 / cnt)))"

text \<open>
  \<open>update_frame_texture(s)\<close> up to the texture upload. A fresh \<open>malloc\<close> buffer is not
  initialised: each of its cells holds \<open>junk\<close>; \<open>malloc_ok\<close> tells whether \<open>malloc\<close>
  returns a buffer.
\<close>

definition update_frame_texture ::
  "world \<Rightarrow> bool \<Rightarrow> Vector3 \<Rightarrow> real \<Rightarrow> shared \<Rightarrow> nat \<Rightarrow> error + (shared \<times> nat)" where
  "update_frame_texture wd malloc_ok junk s sh g =
     (let changed = (real_of_int (frame_w sh) \<noteq> s * real_of_int (screen_w sh)
                     \<or> real_of_int (frame_h sh) \<noteq> s * real_of_int (screen_h sh))
      in if changed \<and> \<not> malloc_ok then Inl (Abort (''OUT OF MEMORY'' @ [CHR 0x0A]))
         else
           let sh1 = (if changed then
                        (let fw = trunc (s * real_of_int (screen_w sh));
                             fh = trunc (s * real_of_int (screen_h sh))
                         in sh\<lparr>frame_w := fw, frame_h := fh,
                               frame := Some (replicate (nat (fw * fh)) junk),
                               accum := Some (replicate (nat (fw * fh)) junk),
                               accum_count := 0\<rparr>)
                      else sh)
           in (case
                 (if accum_count sh1 = 0 then
                    (let seed_scale = 16;
                         scale2inv = 1 / real_of_int (seed_scale * seed_scale);
                         fake_frame_w = c_div (frame_w sh1) seed_scale;
                         fake_frame_h = c_div (frame_h sh1) seed_scale
                     in (case loop_err (\<lambda>j. loop_err (\<lambda>i. seed_cell wd (frame_w sh1)
                                                              fake_frame_w fake_frame_h j i)
                                                [0..<nat fake_frame_w])
                                [0..<nat fake_frame_h] (accum sh1, g) of
                           Inl e \<Rightarrow> Inl e
                         | Inr (acc', g') \<Rightarrow> Inr (acc', accum_count sh1 + scale2inv, g')))
                  else Inr (accum sh1, accum_count sh1, g))
               of
                 Inl e \<Rightarrow> Inl e
               | Inr (acc', cnt, g') \<Rightarrow>
                   (case loop_err (normalize_cell acc' cnt)
                           (concat (map (\<lambda>j. map (\<lambda>i. int j * frame_w sh1 + int i)
                                            [0..<nat (frame_w sh1)]) [0..<nat (frame_h sh1)]))
                           (frame sh1) of
                      Inl e \<Rightarrow> Inl e
                    | Inr fr' \<Rightarrow>
                        Inr (sh1\<lparr>accum := acc', accum_count := cnt, frame := fr'\<rparr>, g'))))"

section \<open>Sample runs of the accumulation protocol\<close>

text \<open>An empty scene under a white one-pixel skybox; the camera always looks along \<open>+Z\<close>.\<close>

definition empty_world :: world where
  "empty_world =
     \<lparr>the_scene = initial_scene,
      skybox = \<lparr>data = (\<lambda>face i. 255), w = 1, h = 1, chan = 3\<rparr>,
      ray_through_screen_at = (\<lambda>x y aspect_ratio. ray_z),
      rand_seq = (\<lambda>n. 0)\<rparr>"

text \<open>Worker with \<open>init_scale\<close> 1 after its first critical section on a 2 by 2 frame.\<close>

definition worker_2x2_fresh :: worker_state where
  "worker_2x2_fresh = \<lparr>local_accum_generation = 0, local_accum = None, local_accum_count = 0,
      local_frame_w = 2, local_frame_h = 2, tile_scale = 1\<rparr>"

text \<open>The content of an uninitialised cell in the runs below.\<close>

definition junk_cell :: Vector3 where
  "junk_cell = Vector3 9 9 9"

text \<open>The globals after the first presentation tick on a 2 by 2 screen.\<close>

definition shared_2x2 :: shared where
  "shared_2x2 = \<lparr>accum_generation = 0, accum = Some (replicate 4 junk_cell),
      frame = Some (replicate 4 (Vector3 2304 2304 2304)), frame_w = 2, frame_h = 2,
      accum_count = 1 / 256, screen_w = 2, screen_h = 2\<rparr>"

text \<open>That worker after its first pass: one sample per pixel of the 2 by 2 frame.\<close>

definition worker_2x2_rendered :: worker_state where
  "worker_2x2_rendered = \<lparr>local_accum_generation = 0, local_accum = Some (replicate 4 (Vector3 1 1 1)),
      local_accum_count = 1, local_frame_w = 2, local_frame_h = 2, tile_scale = 1\<rparr>"

text \<open>The globals after the screen shrank to 1 by 2 and the presenter ticked again.\<close>

definition shared_1x2 :: shared where
  "shared_1x2 = \<lparr>accum_generation = 0, accum = Some (replicate 2 junk_cell),
      frame = Some (replicate 2 (Vector3 2304 2304 2304)), frame_w = 1, frame_h = 2,
      accum_count = 1 / 256, screen_w = 1, screen_h = 2\<rparr>"

text \<open>The globals after the worker merged into the 1 by 2 accumulator.\<close>

definition shared_1x2_merged :: shared where
  "shared_1x2_merged = \<lparr>accum_generation = 0, accum = Some (replicate 2 (Vector3 10 10 10)),
      frame = Some (replicate 2 (Vector3 2304 2304 2304)), frame_w = 1, frame_h = 2,
      accum_count = 257 / 256, screen_w = 1, screen_h = 2\<rparr>"

text \<open>The worker after that merge.\<close>

definition worker_1x2_after :: worker_state where
  "worker_1x2_after = \<lparr>local_accum_generation = 0, local_accum = Some (replicate 4 (Vector3 0 0 0)),
      local_accum_count = 0, local_frame_w = 1, local_frame_h = 2, tile_scale = 1\<rparr>"

text \<open>The globals after the screen widened to 3 by 2 instead.\<close>

definition shared_3x2 :: shared where
  "shared_3x2 = \<lparr>accum_generation = 0, accum = Some (replicate 6 junk_cell),
      frame = Some (replicate 6 (Vector3 2304 2304 2304)), frame_w = 3, frame_h = 2,
      accum_count = 1 / 256, screen_w = 3, screen_h = 2\<rparr>"

section \<open>Theorems\<close>

lemma absf_abs:
  "absf x = \<bar>x\<bar>"
  by (simp add: absf_def)

text \<open>
  C10. For every direction in which no component's absolute value strictly exceeds both
  of the others, \<open>sample_cubemap\<close> selects the Z face pair: the front face when
  \<open>z > 0\<close>, the back face otherwise.
\<close>

theorem sample_cubemap_tie_selects_z:
  assumes "\<not> (\<bar>vx dir\<bar> > \<bar>vy dir\<bar> \<and> \<bar>vx dir\<bar> > \<bar>vz dir\<bar>)"
    and "\<not> (\<bar>vy dir\<bar> > \<bar>vx dir\<bar> \<and> \<bar>vy dir\<bar> > \<bar>vz dir\<bar>)"
    and "\<not> (\<bar>vz dir\<bar> > \<bar>vx dir\<bar> \<and> \<bar>vz dir\<bar> > \<bar>vy dir\<bar>)"
  shows "fst (cubemap_face_uv dir) = (if vz dir > 0 then CF_FRONT else CF_BACK)"
proof -
  have nx: "\<not> (absf (vx dir) > absf (vy dir) \<and> absf (vx dir) > absf (vz dir))"
    unfolding absf_abs by (rule assms(1))
  have ny: "\<not> (absf (vy dir) > absf (vx dir) \<and> absf (vy dir) > absf (vz dir))"
    unfolding absf_abs by (rule assms(2))
  show ?thesis
    unfolding cubemap_face_uv_def Let_def
    by (simp only: nx ny if_False fst_conv if_distrib [of fst])
qed

theorem sample_cubemap_tie_selects_z_witness:
  "\<not> (\<bar>vx (Vector3 1 1 1)\<bar> > \<bar>vy (Vector3 1 1 1)\<bar> \<and> \<bar>vx (Vector3 1 1 1)\<bar> > \<bar>vz (Vector3 1 1 1)\<bar>)
   \<and> \<not> (\<bar>vy (Vector3 1 1 1)\<bar> > \<bar>vx (Vector3 1 1 1)\<bar> \<and> \<bar>vy (Vector3 1 1 1)\<bar> > \<bar>vz (Vector3 1 1 1)\<bar>)
   \<and> \<not> (\<bar>vz (Vector3 1 1 1)\<bar> > \<bar>vx (Vector3 1 1 1)\<bar> \<and> \<bar>vz (Vector3 1 1 1)\<bar> > \<bar>vy (Vector3 1 1 1)\<bar>)
   \<and> fst (cubemap_face_uv (Vector3 1 1 1)) = CF_FRONT"
  using sample_cubemap_tie_selects_z [of "Vector3 1 1 1"] by simp

text \<open>
  C2 (amended). \<open>main\<close> spawns 16 workers; worker \<open>i\<close> is handed \<open>2^i\<close> for
  \<open>i \<le> 4\<close> (1, 2, 4, 8, 16) and 1 for every \<open>i\<close> from 5 to 15, because a shifted value
  above 16 is reset to 1.
\<close>

theorem main_worker_scales_eq:
  "main_worker_scales = [1, 2, 4, 8, 16, 1, 1, 1, 1, 1, 1, 1, 1, 1, 1, 1]"
  by code_simp

text \<open>
  C2 as stated fails at worker 5: the claim gives \<open>min (2^5) 16 = 16\<close>, the code
  hands over 1.
\<close>

theorem main_worker_scale_5_counterexample:
  "main_worker_scales ! 5 = 1 \<and> main_worker_scales ! 5 \<noteq> min (2 ^ 5) 16"
  by code_simp

text \<open>
  C4 (amended). \<open>add_object\<close> never aborts and returns no index. On a store that holds
  \<open>num_objects\<close> objects it leaves a full store (1024 objects) unchanged, and otherwise
  writes the object at index \<open>num_objects\<close> and increments \<open>num_objects\<close> by one.
\<close>

theorem add_object_drops_or_appends:
  assumes "0 \<le> num_objects s" and "length (objects s) = nat MAX_OBJECTS"
  shows "\<exists>s'. add_object ob s = Inr s'
           \<and> num_objects s' = (if num_objects s < MAX_OBJECTS then num_objects s + 1 else num_objects s)
           \<and> objects s' = (if num_objects s < MAX_OBJECTS
                            then (objects s)[nat (num_objects s) := ob] else objects s)
           \<and> length (objects s') = nat MAX_OBJECTS
           \<and> (if num_objects s < MAX_OBJECTS then objects s' ! nat (num_objects s) = ob else s' = s)"
  using assms by (simp add: add_object_def)

theorem add_object_drops_or_appends_witness:
  "0 \<le> num_objects initial_scene \<and> length (objects initial_scene) = nat MAX_OBJECTS
   \<and> (\<exists>s'. add_object (sphere zero_material (Vector3 0 0 3) 1) initial_scene = Inr s'
          \<and> num_objects s' = 1
          \<and> objects s' ! 0 = sphere zero_material (Vector3 0 0 3) 1)"
  using add_object_drops_or_appends [of initial_scene "sphere zero_material (Vector3 0 0 3) 1"]
  by (auto simp add: initial_scene_def MAX_OBJECTS_def)

text \<open>
  C4 as stated fails on a full store: the call returns normally, with the store
  unchanged, instead of aborting with a diagnostic.
\<close>

theorem add_object_full_counterexample:
  "num_objects full_scene = 1024
   \<and> add_object (sphere zero_material (Vector3 0 0 3) 1) full_scene = Inr full_scene
   \<and> add_object (sphere zero_material (Vector3 0 0 3) 1) full_scene
       \<noteq> Inl (Abort ''scene overflow'')"
  by (simp add: add_object_def full_scene_def MAX_OBJECTS_def)

subsection \<open>Sphere intersection\<close>

lemma quad_roots:
  fixes a b c t :: real
  assumes a: "0 < a" and D: "0 < b * b - 4 * a * c"
  shows "a * t * t + b * t + c = 0 \<longleftrightarrow>
         t = (- b + sqrt (b * b - 4 * a * c)) / (2 * a) \<or> t = (- b - sqrt (b * b - 4 * a * c)) / (2 * a)"
proof -
  let ?D = "b * b - 4 * a * c"
  have sq: "sqrt ?D * sqrt ?D = ?D" using D by simp
  have e: "4 * a * (a * t * t + b * t + c) = (2 * a * t + b) * (2 * a * t + b) - sqrt ?D * sqrt ?D"
    unfolding sq by (simp add: algebra_simps)
  have f: "(2 * a * t + b) * (2 * a * t + b) - sqrt ?D * sqrt ?D
            = (2 * a * t + b - sqrt ?D) * (2 * a * t + b + sqrt ?D)"
    by (simp add: algebra_simps)
  have "a * t * t + b * t + c = 0 \<longleftrightarrow> 4 * a * (a * t * t + b * t + c) = 0"
    using a by simp
  also have "\<dots> \<longleftrightarrow> (2 * a * t + b - sqrt ?D) = 0 \<or> (2 * a * t + b + sqrt ?D) = 0"
    unfolding e f by simp
  also have "\<dots> \<longleftrightarrow> t = (- b + sqrt ?D) / (2 * a) \<or> t = (- b - sqrt ?D) / (2 * a)"
    using a by (auto simp add: field_simps)
  finally show ?thesis .
qed

lemma discr_pos_a_pos:
  assumes "0 < sphere_discr r s"
  shows "0 < fst (sphere_coeffs r s)"
proof -
  obtain dx dy dz where d: "direction r = Vector3 dx dy dz" by (cases "direction r")
  have nn: "0 \<le> dx * dx + dy * dy + dz * dz" by simp
  show ?thesis
  proof (rule ccontr)
    assume "\<not> 0 < fst (sphere_coeffs r s)"
    then have z: "dx * dx + dy * dy + dz * dz = 0"
      using nn by (simp add: sphere_coeffs_def Let_def dotv_def d)
    have "dx * dx = 0 \<and> dy * dy = 0 \<and> dz * dz = 0"
      using z by (smt (verit) zero_le_square)
    then have "dx = 0" "dy = 0" "dz = 0" by simp_all
    then have "sphere_discr r s = 0"
      by (simp add: sphere_discr_def sphere_coeffs_def Let_def dotv_def d)
    with assms show False by simp
  qed
qed

lemma discr_pos_radius:
  assumes "0 < sphere_discr r s"
  shows "0 < radius s * radius s"
proof -
  obtain dx dy dz where d: "direction r = Vector3 dx dy dz" by (cases "direction r")
  obtain ox oy oz where o: "origin r = Vector3 ox oy oz" by (cases "origin r")
  obtain cx cy cz where c: "center s = Vector3 cx cy cz" by (cases "center s")
  define ux uy uz where "ux = cx - ox" and "uy = cy - oy" and "uz = cz - oz"
  define R2 where "R2 = radius s * radius s"
  define a where "a = dx * dx + dy * dy + dz * dz"
  have D: "sphere_discr r s =
      4 * (ux * dx + uy * dy + uz * dz) * (ux * dx + uy * dy + uz * dz)
      - 4 * a * (ux * ux + uy * uy + uz * uz - R2)"
    by (simp add: sphere_discr_def sphere_coeffs_def Let_def dotv_def combine_def d o c
        ux_def uy_def uz_def R2_def a_def algebra_simps)
  have lagrange: "a * (ux * ux + uy * uy + uz * uz)
      - (ux * dx + uy * dy + uz * dz) * (ux * dx + uy * dy + uz * dz)
      = (ux * dy - uy * dx) * (ux * dy - uy * dx) + (uy * dz - uz * dy) * (uy * dz - uz * dy)
        + (uz * dx - ux * dz) * (uz * dx - ux * dz)"
    by (simp add: a_def algebra_simps)
  have "0 \<le> a * (ux * ux + uy * uy + uz * uz)
      - (ux * dx + uy * dy + uz * dz) * (ux * dx + uy * dy + uz * dz)"
    unfolding lagrange by simp
  then have "sphere_discr r s \<le> 4 * a * R2"
    unfolding D by (simp add: algebra_simps)
  with assms have pos: "0 < a * R2" by simp
  have "0 \<le> a" by (simp add: a_def)
  have "0 \<le> R2" by (simp add: R2_def)
  show ?thesis
  proof (rule ccontr)
    assume "\<not> 0 < radius s * radius s"
    with \<open>0 \<le> R2\<close> have "R2 = 0" by (simp add: R2_def)
    with pos show False by simp
  qed
qed

lemma lengthv_normalize:
  assumes "dotv p p \<noteq> 0"
  shows "lengthv (normalize p) = 1"
proof -
  have pos: "0 < dotv p p"
    using assms by (smt (verit) dotv_def zero_le_square add_nonneg_nonneg)
  define k where "k = lengthv p"
  have kk: "k * k = vx p * vx p + vy p * vy p + vz p * vz p"
    using pos by (simp add: k_def lengthv_def) (simp add: dotv_def)
  have k0: "k * k \<noteq> 0" using pos kk by (simp add: dotv_def)
  have n: "normalize p = Vector3 (vx p / k) (vy p / k) (vz p / k)"
    by (simp add: normalize_def k_def)
  have "dotv (normalize p) (normalize p)
          = (vx p * vx p + vy p * vy p + vz p * vz p) / (k * k)"
    unfolding n by (simp add: dotv_def add_divide_distrib)
  also have "\<dots> = 1" using k0 unfolding kk by simp
  finally show ?thesis by (simp add: lengthv_def)
qed

lemma sphere_root_on_sphere:
  "sphere_root r s t \<longleftrightarrow> dotv (from_center r s t) (from_center r s t) = radius s * radius s"
proof -
  obtain dx dy dz where d: "direction r = Vector3 dx dy dz" by (cases "direction r")
  obtain ox oy oz where o: "origin r = Vector3 ox oy oz" by (cases "origin r")
  obtain cx cy cz where c: "center s = Vector3 cx cy cz" by (cases "center s")
  show ?thesis
    by (simp add: sphere_root_def sphere_coeffs_def Let_def from_center_def combine_def dotv_def d o c algebra_simps)
qed


lemma normalize_scale:
  "normalize p = scale p (1 / lengthv p)"
  by (simp add: normalize_def scale_def)

lemma intersect_sphere_miss_nonpos:
  "sphere_discr r s \<le> 0 \<Longrightarrow> intersect_sphere r s = None"
  by (simp add: intersect_sphere_def sphere_discr_def sphere_coeffs_def Let_def)

lemma intersect_sphere_pos:
  assumes D: "0 < sphere_discr r s"
    and abc: "sphere_coeffs r s = (a, b, c)"
    and r1: "r1 = (- b + sqrt (sphere_discr r s)) / (2 * a)"
    and r2: "r2 = (- b - sqrt (sphere_discr r s)) / (2 * a)"
  shows "r2 < r1"
    and "intersect_sphere r s = (if r2 < 0 then (if r1 < 0 then None else Some r1) else Some r2)"
    and "sphere_root r s t \<longleftrightarrow> t = r1 \<or> t = r2"
proof -
  have a: "0 < a" using discr_pos_a_pos [OF D] abc by simp
  have Dd: "sphere_discr r s = b * b - 4 * a * c" by (simp add: sphere_discr_def abc)
  have sq: "0 < sqrt (sphere_discr r s)" using D by simp
  show lt: "r2 < r1" unfolding r1 r2 using a sq by (simp add: divide_strict_right_mono)
  have co: "dotv (direction r) (direction r) = a"
      "- 2 * dotv (combine (center s) (origin r) 1 (- 1)) (direction r) = b"
      "dotv (combine (center s) (origin r) 1 (- 1)) (combine (center s) (origin r) 1 (- 1))
         - radius s * radius s = c"
    using abc by (simp_all add: sphere_coeffs_def Let_def)
  have "intersect_sphere r s =
      (let s0 = (- b + sqrt (b * b - 4 * a * c)) / (2 * a);
           s1 = (- b - sqrt (b * b - 4 * a * c)) / (2 * a);
           (s0', s1') = (if s0 > s1 then (s1, s0) else (s0, s1))
       in if s0' < 0 then (if s1' < 0 then None else Some s1') else Some s0')"
    using D unfolding Dd intersect_sphere_def Let_def co by (simp only: if_True)
  also have "\<dots> = (if r2 < 0 then (if r1 < 0 then None else Some r1) else Some r2)"
    using lt unfolding r1 r2 Dd Let_def by simp
  finally show "intersect_sphere r s = (if r2 < 0 then (if r1 < 0 then None else Some r1) else Some r2)" .
  show "sphere_root r s t \<longleftrightarrow> t = r1 \<or> t = r2"
    using quad_roots [OF a, of b c t] D unfolding Dd r1 r2 sphere_root_def abc by simp
qed

text \<open>
  C3 (amended). \<open>intersect_sphere\<close> reports a miss when the discriminant is negative
  and when every root is negative. When the discriminant is positive and some root
  \<open>t0\<close> is non-negative, it reports a hit at a non-negative root \<open>t \<le> t0\<close> (the
  smallest non-negative root), and the normal that \<open>intersect_object\<close> returns for it is
  the vector from the centre to the hit point divided by its (positive) length: a unit
  vector.
\<close>

theorem intersect_sphere_smallest_root:
  "(sphere_discr r s < 0 \<longrightarrow> intersect_sphere r s = None)
   \<and> (0 < sphere_discr r s \<and> (\<forall>t. sphere_root r s t \<longrightarrow> t < 0) \<longrightarrow> intersect_sphere r s = None)
   \<and> (0 < sphere_discr r s \<and> sphere_root r s t0 \<and> 0 \<le> t0 \<longrightarrow>
        (\<exists>t. intersect_sphere r s = Some t \<and> sphere_root r s t \<and> 0 \<le> t \<and> t \<le> t0
           \<and> intersect_object r (OBJECT_SPHERE s m) = Some (Fin t, normalize (from_center r s t))
           \<and> normalize (from_center r s t)
                = scale (from_center r s t) (1 / lengthv (from_center r s t))
           \<and> 0 < lengthv (from_center r s t)
           \<and> lengthv (normalize (from_center r s t)) = 1))"
proof (intro conjI impI)
  assume "sphere_discr r s < 0"
  then show "intersect_sphere r s = None" by (simp add: intersect_sphere_miss_nonpos)
next
  assume h: "0 < sphere_discr r s \<and> (\<forall>t. sphere_root r s t \<longrightarrow> t < 0)"
  obtain a b c where abc: "sphere_coeffs r s = (a, b, c)" by (cases "sphere_coeffs r s")
  define r1 where "r1 = (- b + sqrt (sphere_discr r s)) / (2 * a)"
  define r2 where "r2 = (- b - sqrt (sphere_discr r s)) / (2 * a)"
  note f = intersect_sphere_pos [OF conjunct1 [OF h] abc r1_def r2_def]
  have "r1 < 0" "r2 < 0" using h f(3) by blast+
  then show "intersect_sphere r s = None" using f(2) by simp
next
  assume h: "0 < sphere_discr r s \<and> sphere_root r s t0 \<and> 0 \<le> t0"
  then have D: "0 < sphere_discr r s" and root0: "sphere_root r s t0" and t0: "0 \<le> t0" by simp_all
  obtain a b c where abc: "sphere_coeffs r s = (a, b, c)" by (cases "sphere_coeffs r s")
  define r1 where "r1 = (- b + sqrt (sphere_discr r s)) / (2 * a)"
  define r2 where "r2 = (- b - sqrt (sphere_discr r s)) / (2 * a)"
  note f = intersect_sphere_pos [OF D abc r1_def r2_def]
  define t where "t = (if r2 < 0 then r1 else r2)"
  have t0c: "t0 = r1 \<or> t0 = r2" using root0 f(3) by blast
  have r1nn: "0 \<le> r1" using t0c t0 f(1) by auto
  have res: "intersect_sphere r s = Some t" using f(2) r1nn by (simp add: t_def)
  have tr: "sphere_root r s t" using f(3) [of t] by (simp add: t_def)
  have tn: "0 \<le> t" using r1nn by (simp add: t_def)
  have tle: "t \<le> t0" using t0c t0 f(1) by (auto simp add: t_def)
  have "dotv (from_center r s t) (from_center r s t) = radius s * radius s"
    using tr by (simp only: sphere_root_on_sphere)
  with discr_pos_radius [OF D]
  have nz: "dotv (from_center r s t) (from_center r s t) \<noteq> 0" by linarith
  have pos: "0 \<le> dotv (from_center r s t) (from_center r s t)"
    by (simp add: dotv_def)
  have lpos: "0 < lengthv (from_center r s t)"
    using nz pos by (simp add: lengthv_def)
  have io: "intersect_object r (OBJECT_SPHERE s m) = Some (Fin t, normalize (from_center r s t))"
    by (simp add: res from_center_def)
  show "\<exists>t. intersect_sphere r s = Some t \<and> sphere_root r s t \<and> 0 \<le> t \<and> t \<le> t0
           \<and> intersect_object r (OBJECT_SPHERE s m) = Some (Fin t, normalize (from_center r s t))
           \<and> normalize (from_center r s t)
                = scale (from_center r s t) (1 / lengthv (from_center r s t))
           \<and> 0 < lengthv (from_center r s t)
           \<and> lengthv (normalize (from_center r s t)) = 1"
    using res tr tn tle io lpos lengthv_normalize [OF nz] normalize_scale by blast
qed


text \<open>
  C3 as stated fails for a sphere behind the ray: the discriminant is 4, not negative,
  and the function reports a miss.
\<close>

theorem intersect_sphere_behind_counterexample:
  "sphere_discr ray_z (Sphere (Vector3 0 0 (- 3)) 1) = 4
   \<and> intersect_sphere ray_z (Sphere (Vector3 0 0 (- 3)) 1) = None"
  by (simp add: sphere_discr_def sphere_coeffs_def intersect_sphere_def ray_z_def combine_def dotv_def Let_def)

text \<open>A tangent ray (discriminant 0, double root 3) is reported as a miss as well.\<close>

lemma intersect_sphere_tangent_miss:
  "sphere_discr ray_z (Sphere (Vector3 1 0 3) 1) = 0
   \<and> sphere_root ray_z (Sphere (Vector3 1 0 3) 1) 3
   \<and> intersect_sphere ray_z (Sphere (Vector3 1 0 3) 1) = None"
  by (simp add: sphere_discr_def sphere_root_def sphere_coeffs_def intersect_sphere_def ray_z_def combine_def dotv_def Let_def)

theorem intersect_sphere_smallest_root_witness:
  "sphere_discr ray_z (Sphere (Vector3 5 0 0) 1) < 0
   \<and> intersect_sphere ray_z (Sphere (Vector3 5 0 0) 1) = None
   \<and> 0 < sphere_discr ray_z (Sphere (Vector3 0 0 (- 3)) 1)
   \<and> \<not> (\<exists>t. sphere_root ray_z (Sphere (Vector3 0 0 (- 3)) 1) t \<and> 0 \<le> t)
   \<and> intersect_sphere ray_z (Sphere (Vector3 0 0 (- 3)) 1) = None
   \<and> 0 < sphere_discr ray_z (Sphere (Vector3 0 0 3) 1)
   \<and> sphere_root ray_z (Sphere (Vector3 0 0 3) 1) 2 \<and> (0::real) \<le> 2
   \<and> (\<exists>t. intersect_sphere ray_z (Sphere (Vector3 0 0 3) 1) = Some t \<and> 0 \<le> t \<and> t \<le> 2
        \<and> lengthv (normalize (from_center ray_z (Sphere (Vector3 0 0 3) 1) t)) = 1)"
proof -
  have d1: "sphere_discr ray_z (Sphere (Vector3 5 0 0) 1) < 0"
    by (simp add: sphere_discr_def sphere_coeffs_def ray_z_def combine_def dotv_def Let_def)
  have d2: "0 < sphere_discr ray_z (Sphere (Vector3 0 0 (- 3)) 1)"
    by (simp add: sphere_discr_def sphere_coeffs_def ray_z_def combine_def dotv_def Let_def)
  have n2: "\<forall>t. sphere_root ray_z (Sphere (Vector3 0 0 (- 3)) 1) t \<longrightarrow> t < 0"
  proof (intro allI impI)
    fix t :: real
    assume "sphere_root ray_z (Sphere (Vector3 0 0 (- 3)) 1) t"
    then have e: "t * t + 6 * t + 8 = 0"
      by (simp add: sphere_root_def sphere_coeffs_def ray_z_def combine_def dotv_def Let_def)
    show "t < 0"
    proof (rule ccontr)
      assume "\<not> t < 0"
      then have "0 \<le> t * t" "0 \<le> t" by simp_all
      with e show False by linarith
    qed
  qed
  have d3: "0 < sphere_discr ray_z (Sphere (Vector3 0 0 3) 1)"
    by (simp add: sphere_discr_def sphere_coeffs_def ray_z_def combine_def dotv_def Let_def)
  have r3: "sphere_root ray_z (Sphere (Vector3 0 0 3) 1) 2"
    by (simp add: sphere_root_def sphere_coeffs_def ray_z_def combine_def dotv_def Let_def)
  have c1: "intersect_sphere ray_z (Sphere (Vector3 5 0 0) 1) = None"
    using d1 intersect_sphere_smallest_root [of ray_z "Sphere (Vector3 5 0 0) 1" 0 zero_material]
    by blast
  have c2: "intersect_sphere ray_z (Sphere (Vector3 0 0 (- 3)) 1) = None"
    using d2 n2
      intersect_sphere_smallest_root [of ray_z "Sphere (Vector3 0 0 (- 3)) 1" 0 zero_material]
    by blast
  have n2': "\<not> (\<exists>t. sphere_root ray_z (Sphere (Vector3 0 0 (- 3)) 1) t \<and> 0 \<le> t)"
  proof
    assume "\<exists>t. sphere_root ray_z (Sphere (Vector3 0 0 (- 3)) 1) t \<and> 0 \<le> t"
    then obtain t where "sphere_root ray_z (Sphere (Vector3 0 0 (- 3)) 1) t" and "0 \<le> t" by blast
    with n2 show False by force
  qed
  have c3: "\<exists>t. intersect_sphere ray_z (Sphere (Vector3 0 0 3) 1) = Some t \<and> 0 \<le> t \<and> t \<le> 2
        \<and> lengthv (normalize (from_center ray_z (Sphere (Vector3 0 0 3) 1) t)) = 1"
    using d3 r3
      intersect_sphere_smallest_root [of ray_z "Sphere (Vector3 0 0 3) 1" 2 zero_material]
    by (simp (no_asm_use)) blast
  show ?thesis
    using d1 c1 d2 n2' c2 d3 r3 c3 by simp
qed

subsection \<open>Normals of traced hits\<close>

lemma normalize_z:
  "normalize (Vector3 0 0 1) = Vector3 0 0 1"
  by (simp add: normalize_def lengthv_def dotv_def)

lemma trace_unit_sphere:
  "trace_ray unit_sphere_scene ray_z
  = \<lparr>distance = 1, point = Vector3 0 0 1, normal = Vector3 0 0 1, object = 0\<rparr>"
  by (simp add: trace_ray_def unit_sphere_scene_def ray_z_def normalize_z trace_step_def
      MAX_OBJECTS_def sphere_def intersect_sphere_def combine_def dotv_def Let_def FLT_MAX_def
      normalize_def lengthv_def)

lemma trace_front_sphere:
  "trace_ray front_sphere_scene ray_z
  = \<lparr>distance = 2, point = Vector3 0 0 2, normal = Vector3 0 0 (- 1), object = 0\<rparr>"
  by (simp add: trace_ray_def front_sphere_scene_def ray_z_def normalize_z trace_step_def
      MAX_OBJECTS_def sphere_def intersect_sphere_def combine_def dotv_def Let_def FLT_MAX_def
      normalize_def lengthv_def)

lemma intersect_cube_normal:
  assumes "intersect_cube r c = Some (tn, tf, n)"
  shows "dotv n (direction r) \<le> 0"
  using assms
  by (auto simp add: intersect_cube_def Let_def dotv_def split: if_splits prod.splits)


lemma trace_fold_invariant:
  assumes "fold (trace_step s ray) [0..<n] (FLT_MAX, - 1, z0) = (nt, k, nn)" and "k \<noteq> - 1"
  shows "0 \<le> k \<and> k < int n \<and> 0 \<le> nt
       \<and> intersect_object ray (objects s ! nat k) = Some (Fin nt, nn)"
  using assms
proof (induction n arbitrary: nt k nn)
  case 0
  then show ?case by simp
next
  case (Suc n)
  obtain nt' k' nn' where prev: "fold (trace_step s ray) [0..<n] (FLT_MAX, - 1, z0) = (nt', k', nn')"
    by (cases "fold (trace_step s ray) [0..<n] (FLT_MAX, - 1, z0)") auto
  have step: "trace_step s ray n (nt', k', nn') = (nt, k, nn)"
    using Suc.prems(1) prev by simp
  have keep: ?case if "(nt', k', nn') = (nt, k, nn)"
    using Suc.IH [OF prev] Suc.prems(2) that by auto
  show ?case
  proof (cases "intersect_object ray (objects s ! n)")
    case None
    then have "(nt', k', nn') = (nt, k, nn)" using step by (simp add: trace_step_def)
    then show ?thesis by (rule keep)
  next
    case (Some tn)
    obtain t m where tn: "tn = (t, m)" by (cases tn)
    show ?thesis
    proof (cases t)
      case (Fin tv)
      show ?thesis
      proof (cases "tv \<ge> 0 \<and> tv < nt'")
        case True
        then have "(nt, k, nn) = (tv, int n, m)"
          using step Some tn Fin by (simp add: trace_step_def)
        then show ?thesis using Some tn Fin True by auto
      next
        case False
        then have "(nt', k', nn') = (nt, k, nn)"
          using step Some tn Fin by (auto simp add: trace_step_def)
        then show ?thesis by (rule keep)
      qed
    next
      case PInf
      then have "(nt', k', nn') = (nt, k, nn)" using step Some tn by (simp add: trace_step_def)
      then show ?thesis by (rule keep)
    next
      case MInf
      then have "(nt', k', nn') = (nt, k, nn)" using step Some tn by (simp add: trace_step_def)
      then show ?thesis by (rule keep)
    next
      case NaN
      then have "(nt', k', nn') = (nt, k, nn)" using step Some tn by (simp add: trace_step_def)
      then show ?thesis by (rule keep)
    qed
  qed
qed

lemma trace_ray_hit:
  assumes "object (trace_ray s ray) \<noteq> - 1"
  shows "0 \<le> object (trace_ray s ray) \<and> object (trace_ray s ray) < num_objects s
       \<and> 0 \<le> distance (trace_ray s ray)
       \<and> intersect_object (Ray (origin ray) (normalize (direction ray)))
            (objects s ! nat (object (trace_ray s ray)))
          = Some (Fin (distance (trace_ray s ray)), normal (trace_ray s ray))"
proof -
  let ?r = "Ray (origin ray) (normalize (direction ray))"
  obtain nt k nn where f:
    "fold (trace_step s ?r) [0..<nat (num_objects s)] (FLT_MAX, - 1, Vector3 0 0 0) = (nt, k, nn)"
    by (cases "fold (trace_step s ?r) [0..<nat (num_objects s)] (FLT_MAX, - 1, Vector3 0 0 0)") auto
  have k: "k \<noteq> - 1" using assms f by (auto simp add: trace_ray_def Let_def)
  then have tr: "trace_ray s ray = \<lparr>distance = nt, point = combine (origin ?r) (direction ?r) 1 nt,
      normal = nn, object = k\<rparr>"
    using f by (simp add: trace_ray_def Let_def)
  show ?thesis using trace_fold_invariant [OF f k] by (auto simp add: tr split: if_splits)
qed

lemma intersect_sphere_normal_sign:
  assumes hit: "intersect_sphere r sp = Some t"
  shows "radius sp * radius sp
           < dotv (combine (center sp) (origin r) 1 (- 1)) (combine (center sp) (origin r) 1 (- 1))
         \<Longrightarrow> dotv (normalize (from_center r sp t)) (direction r) \<le> 0"
    and "dotv (combine (center sp) (origin r) 1 (- 1)) (combine (center sp) (origin r) 1 (- 1))
           < radius sp * radius sp
         \<Longrightarrow> 0 < dotv (normalize (from_center r sp t)) (direction r)"
proof -
  have D: "0 < sphere_discr r sp"
  proof (rule ccontr)
    assume "\<not> 0 < sphere_discr r sp"
    then have "intersect_sphere r sp = None" by (simp add: intersect_sphere_miss_nonpos)
    with hit show False by simp
  qed
  obtain a b c where abc: "sphere_coeffs r sp = (a, b, c)" by (cases "sphere_coeffs r sp")
  define q where "q = sqrt (sphere_discr r sp)"
  define r1 where "r1 = (- b + sqrt (sphere_discr r sp)) / (2 * a)"
  define r2 where "r2 = (- b - sqrt (sphere_discr r sp)) / (2 * a)"
  note f = intersect_sphere_pos [OF D abc r1_def r2_def]
  have a: "0 < a" using discr_pos_a_pos [OF D] abc by simp
  have q: "0 < q" using D by (simp add: q_def)
  have Dd: "sphere_discr r sp = b * b - 4 * a * c" by (simp add: sphere_discr_def abc)
  have sq: "q * q = b * b - 4 * a * c" using D Dd by (simp add: q_def)
  have e1: "2 * a * r1 = - b + q" using a by (simp add: r1_def q_def)
  have e2: "2 * a * r2 = - b - q" using a by (simp add: r2_def q_def)
  have "(2 * a * r1) * (2 * a * r2) = b * b - q * q"
    unfolding e1 e2 by (simp add: algebra_simps)
  then have "(2 * a * r1) * (2 * a * r2) = 4 * a * c" unfolding sq by simp
  then have vieta: "a * (r1 * r2) = c" using a by (simp add: algebra_simps)
  have cv: "c = dotv (combine (center sp) (origin r) 1 (- 1)) (combine (center sp) (origin r) 1 (- 1))
                  - radius sp * radius sp"
    using abc by (simp add: sphere_coeffs_def Let_def)
  obtain dx dy dz where d: "direction r = Vector3 dx dy dz" by (cases "direction r")
  obtain ox oy oz where o: "origin r = Vector3 ox oy oz" by (cases "origin r")
  obtain cx cy cz where ce: "center sp = Vector3 cx cy cz" by (cases "center sp")
  have av: "a = dx * dx + dy * dy + dz * dz"
    and bv: "b = - 2 * ((cx - ox) * dx + (cy - oy) * dy + (cz - oz) * dz)"
    using abc by (simp_all add: sphere_coeffs_def Let_def dotv_def combine_def d o ce)
  have dot2: "2 * dotv (from_center r sp t) (direction r) = b + 2 * a * t"
    by (simp add: from_center_def combine_def dotv_def d o ce av bv algebra_simps)
  have troot: "sphere_root r sp t"
    using f(2) f(3) [of t] hit by (auto split: if_splits)
  have "dotv (from_center r sp t) (from_center r sp t) = radius sp * radius sp"
    using troot by (simp only: sphere_root_on_sphere)
  with discr_pos_radius [OF D] have "0 < dotv (from_center r sp t) (from_center r sp t)"
    by linarith
  then have len: "0 < lengthv (from_center r sp t)" by (simp add: lengthv_def)
  have nd: "dotv (normalize (from_center r sp t)) (direction r)
          = dotv (from_center r sp t) (direction r) / lengthv (from_center r sp t)"
    by (simp add: normalize_def dotv_def add_divide_distrib)
  {
    assume "radius sp * radius sp
           < dotv (combine (center sp) (origin r) 1 (- 1)) (combine (center sp) (origin r) 1 (- 1))"
    then have c: "0 < c" by (simp add: cv)
    have prod: "0 < r1 * r2"
    proof (rule ccontr)
      assume "\<not> 0 < r1 * r2"
      then have "r1 * r2 \<le> 0" by simp
      then have "a * (r1 * r2) \<le> 0" using a by (simp add: mult_nonneg_nonpos)
      with vieta c show False by simp
    qed
    have t: "t = r2"
    proof (cases "r2 < 0")
      case True
      then have "r1 < 0" using prod by (simp add: zero_less_mult_iff)
      then show ?thesis using f(2) hit True by simp
    next
      case False
      then show ?thesis using f(2) hit by simp
    qed
    have "b + 2 * a * t = - q" using e2 by (simp add: t)
    with dot2 q have "dotv (from_center r sp t) (direction r) \<le> 0" by linarith
    then show "dotv (normalize (from_center r sp t)) (direction r) \<le> 0"
      unfolding nd using len by (simp add: divide_le_0_iff)
  }
  {
    assume "dotv (combine (center sp) (origin r) 1 (- 1)) (combine (center sp) (origin r) 1 (- 1))
           < radius sp * radius sp"
    then have c: "c < 0" by (simp add: cv)
    have prod: "r1 * r2 < 0"
    proof (rule ccontr)
      assume "\<not> r1 * r2 < 0"
      then have "0 \<le> r1 * r2" by simp
      then have "0 \<le> a * (r1 * r2)" using a by (simp add: mult_nonneg_nonneg)
      with vieta c show False by simp
    qed
    have r2n: "r2 < 0" using prod f(1) by (auto simp add: mult_less_0_iff)
    then have r1p: "0 < r1" using prod by (auto simp add: mult_less_0_iff)
    have t: "t = r1" using f(2) hit r2n r1p by simp
    have "b + 2 * a * t = q" using e1 by (simp add: t)
    with dot2 q have "0 < dotv (from_center r sp t) (direction r)" by linarith
    then show "0 < dotv (normalize (from_center r sp t)) (direction r)"
      unfolding nd using len by simp
  }
qed

lemma dotv_normalize:
  "dotv n (normalize d) = dotv n d / lengthv d"
  by (simp add: normalize_def dotv_def add_divide_distrib)

lemma lengthv_nonneg:
  "0 \<le> lengthv d"
  by (simp add: lengthv_def dotv_def)

lemma dotv_normalize_sign:
  assumes "dotv n (normalize d) \<le> 0"
  shows "dotv n d \<le> 0"
proof (cases "lengthv d = 0")
  case True
  then have "dotv d d = 0" by (simp add: lengthv_def)
  then have "vx d * vx d = 0 \<and> vy d * vy d = 0 \<and> vz d * vz d = 0"
    unfolding dotv_def by (smt (verit) zero_le_square)
  then show ?thesis by (simp add: dotv_def)
next
  case False
  with lengthv_nonneg [of d] have l: "0 < lengthv d" by simp
  with assms show ?thesis by (simp add: dotv_normalize divide_le_0_iff)
qed

lemma dotv_normalize_pos:
  assumes "0 < dotv n (normalize d)"
  shows "0 < dotv n d"
proof (cases "lengthv d = 0")
  case True
  then have "dotv n (normalize d) = 0" by (simp add: dotv_normalize)
  with assms show ?thesis by simp
next
  case False
  with lengthv_nonneg [of d] have l: "0 < lengthv d" by simp
  with assms show ?thesis by (simp add: dotv_normalize zero_less_divide_iff)
qed

text \<open>
  C5 (amended). For every hit reported by \<open>trace_ray\<close> on a box, and for every hit on
  a sphere when the ray origin lies strictly outside that sphere, the returned normal
  satisfies \<open>dot(normal, ray.direction) \<le> 0\<close>. For every hit on a sphere when the ray
  origin lies strictly inside that sphere, \<open>dot(normal, ray.direction) > 0\<close>. In both
  sphere cases the normal is the normalised vector from the centre to the hit point, and
  the inequalities hold for the direction as given and as normalised by \<open>trace_ray\<close>.
\<close>

theorem trace_ray_normal_faces_ray:
  assumes hit: "object (trace_ray s ray) \<noteq> - 1"
  shows "case objects s ! nat (object (trace_ray s ray)) of
           OBJECT_CUBE cb m \<Rightarrow>
             dotv (normal (trace_ray s ray)) (normalize (direction ray)) \<le> 0
             \<and> dotv (normal (trace_ray s ray)) (direction ray) \<le> 0
         | OBJECT_SPHERE sp m \<Rightarrow>
             normal (trace_ray s ray)
               = normalize (from_center (Ray (origin ray) (normalize (direction ray))) sp
                              (distance (trace_ray s ray)))
             \<and> (radius sp * radius sp
                   < dotv (combine (center sp) (origin ray) 1 (- 1))
                          (combine (center sp) (origin ray) 1 (- 1))
                 \<longrightarrow> dotv (normal (trace_ray s ray)) (normalize (direction ray)) \<le> 0
                     \<and> dotv (normal (trace_ray s ray)) (direction ray) \<le> 0)
             \<and> (dotv (combine (center sp) (origin ray) 1 (- 1))
                      (combine (center sp) (origin ray) 1 (- 1))
                   < radius sp * radius sp
                 \<longrightarrow> 0 < dotv (normal (trace_ray s ray)) (normalize (direction ray))
                     \<and> 0 < dotv (normal (trace_ray s ray)) (direction ray))"
proof -
  let ?r = "Ray (origin ray) (normalize (direction ray))"
  let ?h = "trace_ray s ray"
  note io = trace_ray_hit [OF hit]
  show ?thesis
  proof (cases "objects s ! nat (object ?h)")
    case (OBJECT_CUBE cb m)
    then obtain tf where "intersect_cube ?r cb = Some (Fin (distance ?h), tf, normal ?h)"
      using io by (auto split: option.splits)
    from intersect_cube_normal [OF this]
    have "dotv (normal ?h) (normalize (direction ray)) \<le> 0" by simp
    then show ?thesis using OBJECT_CUBE dotv_normalize_sign by simp
  next
    case (OBJECT_SPHERE sp m)
    then have isp: "intersect_sphere ?r sp = Some (distance ?h)"
      and nn: "normal ?h = normalize (from_center ?r sp (distance ?h))"
      using io by (auto simp add: from_center_def Let_def split: option.splits)
    note sg = intersect_sphere_normal_sign [OF isp]
    have out: "dotv (normal ?h) (normalize (direction ray)) \<le> 0
             \<and> dotv (normal ?h) (direction ray) \<le> 0"
      if "radius sp * radius sp
            < dotv (combine (center sp) (origin ray) 1 (- 1)) (combine (center sp) (origin ray) 1 (- 1))"
    proof -
      have "dotv (normal ?h) (normalize (direction ray)) \<le> 0"
        using sg(1) that by (simp add: nn)
      then show ?thesis using dotv_normalize_sign by blast
    qed
    have ins: "0 < dotv (normal ?h) (normalize (direction ray))
             \<and> 0 < dotv (normal ?h) (direction ray)"
      if "dotv (combine (center sp) (origin ray) 1 (- 1)) (combine (center sp) (origin ray) 1 (- 1))
            < radius sp * radius sp"
    proof -
      have "0 < dotv (normal ?h) (normalize (direction ray))"
        using sg(2) that by (simp add: nn)
      then show ?thesis using dotv_normalize_pos by blast
    qed
    show ?thesis using OBJECT_SPHERE nn out ins by simp
  qed
qed

lemma sqrt_49:
  "sqrt 49 = 7"
  by (rule real_sqrt_unique) simp_all

lemma normalize_diag:
  "normalize (Vector3 2 3 6) = Vector3 (2 / 7) (3 / 7) (6 / 7)"
  by (simp add: normalize_def lengthv_def dotv_def sqrt_49)

lemma trace_cube_scene:
  "trace_ray cube_scene ray_diag
  = \<lparr>distance = 35 / 6, point = Vector3 (5 / 3) (5 / 2) 5, normal = Vector3 0 0 (- 1), object = 0\<rparr>"
  by (simp add: trace_ray_def cube_scene_def ray_diag_def normalize_diag trace_step_def
      MAX_OBJECTS_def cube_def intersect_cube_def fdiv_def fgt_def combine_def Let_def FLT_MAX_def)

text \<open>
  An axis-aligned ray under the box: the \<open>x\<close> and \<open>y\<close> slabs are \<open>(-inf, +inf)\<close> and the
  box is hit at \<open>t = 5\<close>. The same ray moved beside the box misses it.
\<close>

lemma intersect_cube_axis_aligned:
  "intersect_cube (Ray (Vector3 2 2 0) (Vector3 0 0 1)) (Cube (Vector3 1 1 5) (Vector3 2 2 2))
   = Some (Fin 5, Fin 7, Vector3 0 0 (- 1))"
  by (simp add: intersect_cube_def fdiv_def fgt_def combine_def Let_def)

lemma trace_cube_axis_aligned:
  "trace_ray cube_scene (Ray (Vector3 2 2 0) (Vector3 0 0 1))
  = \<lparr>distance = 5, point = Vector3 2 2 5, normal = Vector3 0 0 (- 1), object = 0\<rparr>"
  by (simp add: trace_ray_def cube_scene_def normalize_z trace_step_def
      MAX_OBJECTS_def cube_def intersect_cube_axis_aligned combine_def Let_def FLT_MAX_def)

lemma trace_cube_beside:
  "object (trace_ray cube_scene (Ray (Vector3 100 2 6) (Vector3 0 0 1))) = - 1"
  by (simp add: trace_ray_def cube_scene_def normalize_z trace_step_def
      MAX_OBJECTS_def cube_def intersect_cube_def fdiv_def fgt_def combine_def Let_def FLT_MAX_def)

text \<open>
  C5 as stated fails for a ray that starts inside a sphere: the hit is the exit point and
  the outward normal there points along the ray.
\<close>

theorem trace_ray_inside_sphere_counterexample:
  "object (trace_ray unit_sphere_scene ray_z) = 0
   \<and> dotv (normal (trace_ray unit_sphere_scene ray_z)) (direction ray_z) = 1
   \<and> \<not> dotv (normal (trace_ray unit_sphere_scene ray_z)) (direction ray_z) \<le> 0"
  unfolding trace_unit_sphere by (simp add: ray_z_def dotv_def)

theorem trace_ray_normal_faces_ray_witness:
  "object (trace_ray cube_scene (Ray (Vector3 2 2 0) (Vector3 0 0 1))) \<noteq> - 1
   \<and> dotv (normal (trace_ray cube_scene (Ray (Vector3 2 2 0) (Vector3 0 0 1)))) (Vector3 0 0 1) \<le> 0
   \<and> object (trace_ray front_sphere_scene ray_z) \<noteq> - 1
   \<and> 1 * 1 < dotv (combine (Vector3 0 0 3) (origin ray_z) 1 (- 1))
                   (combine (Vector3 0 0 3) (origin ray_z) 1 (- 1))
   \<and> dotv (normal (trace_ray front_sphere_scene ray_z)) (direction ray_z) \<le> 0
   \<and> object (trace_ray unit_sphere_scene ray_z) \<noteq> - 1
   \<and> dotv (combine (Vector3 0 0 0) (origin ray_z) 1 (- 1))
           (combine (Vector3 0 0 0) (origin ray_z) 1 (- 1)) < 1 * 1
   \<and> 0 < dotv (normal (trace_ray unit_sphere_scene ray_z)) (direction ray_z)"
proof -
  let ?up = "Ray (Vector3 2 2 0) (Vector3 0 0 1)"
  have h1: "object (trace_ray cube_scene ?up) \<noteq> - 1"
    by (simp add: trace_cube_axis_aligned)
  have o1: "objects cube_scene ! nat (object (trace_ray cube_scene ?up))
              = OBJECT_CUBE (Cube (Vector3 1 1 5) (Vector3 2 2 2)) zero_material"
    unfolding trace_cube_axis_aligned by (simp add: cube_scene_def MAX_OBJECTS_def cube_def)
  have c1: "dotv (normal (trace_ray cube_scene ?up)) (Vector3 0 0 1) \<le> 0"
    using trace_ray_normal_faces_ray [OF h1, unfolded o1 Object.case] by (simp add: trace_cube_axis_aligned)
  have h2: "object (trace_ray front_sphere_scene ray_z) \<noteq> - 1"
    by (simp add: trace_front_sphere)
  have o2: "objects front_sphere_scene ! nat (object (trace_ray front_sphere_scene ray_z))
              = OBJECT_SPHERE (Sphere (Vector3 0 0 3) 1) zero_material"
    unfolding trace_front_sphere by (simp add: front_sphere_scene_def MAX_OBJECTS_def sphere_def)
  have p2: "1 * 1 < dotv (combine (Vector3 0 0 3) (origin ray_z) 1 (- 1))
                        (combine (Vector3 0 0 3) (origin ray_z) 1 (- 1))"
    by (simp add: ray_z_def combine_def dotv_def)
  have c2: "dotv (normal (trace_ray front_sphere_scene ray_z)) (direction ray_z) \<le> 0"
    using trace_ray_normal_faces_ray [OF h2, unfolded o2 Object.case Sphere.sel] p2 by blast
  have h3: "object (trace_ray unit_sphere_scene ray_z) \<noteq> - 1"
    by (simp add: trace_unit_sphere)
  have o3: "objects unit_sphere_scene ! nat (object (trace_ray unit_sphere_scene ray_z))
              = OBJECT_SPHERE (Sphere (Vector3 0 0 0) 1) zero_material"
    unfolding trace_unit_sphere by (simp add: unit_sphere_scene_def MAX_OBJECTS_def sphere_def)
  have p3: "dotv (combine (Vector3 0 0 0) (origin ray_z) 1 (- 1))
                 (combine (Vector3 0 0 0) (origin ray_z) 1 (- 1)) < 1 * 1"
    by (simp add: ray_z_def combine_def dotv_def)
  have c3: "0 < dotv (normal (trace_ray unit_sphere_scene ray_z)) (direction ray_z)"
    using trace_ray_normal_faces_ray [OF h3, unfolded o3 Object.case Sphere.sel] p3 by blast
  show ?thesis using h1 c1 h2 p2 c2 h3 p3 c3 by blast
qed

subsection \<open>The radiance estimator\<close>

text \<open>
  C7. For every input \<open>(u, v)\<close> and every aspect ratio (in particular for \<open>(u, v)\<close> in
  the unit square), each component of the vector that \<open>pixel\<close> returns lies in \<open>[0,1]\<close>.
\<close>

theorem pixel_clamped:
  "unit_range (fst (pixel wd x y aspect_ratio g))"
  by (simp add: pixel_def Let_def clamp_def unit_range_def)













lemma random_direction_snd:
  "snd (random_direction rs g) = g + 3"
  by (simp add: random_direction_def random_vector_def random_float_def Let_def split: prod.splits)

lemma light_sample_eq:
  "light_sample wd hit (combine (origin_of (objects (the_scene wd) ! j)) (point hit) 1 (- 1)) k
     (c, g0 + 3 * k)
   = (combine c (shadow_light (the_scene wd) (shadow_ray wd hit j g0 k)) 1 1, g0 + 3 * Suc k)"
proof -
  obtain r g1 where rd: "random_direction (rand_seq wd) (g0 + 3 * k) = (r, g1)"
    by (cases "random_direction (rand_seq wd) (g0 + 3 * k)") auto
  have g1: "g1 = g0 + 3 * Suc k" using random_direction_snd [of "rand_seq wd" "g0 + 3 * k"] rd by simp
  show ?thesis
    by (cases c) (simp add: light_sample_def shadow_light_def shadow_ray_def Let_def rd g1
        combine_def scale_def)
qed

lemma light_fold_eq:
  "fold (light_sample wd hit (combine (origin_of (objects (the_scene wd) ! j)) (point hit) 1 (- 1)))
      [0..<n] (c, g0)
   = (combine c (sum_vec (map (\<lambda>k. shadow_light (the_scene wd) (shadow_ray wd hit j g0 k)) [0..<n])) 1 1,
      g0 + 3 * n)"
proof (induction n)
  case 0
  show ?case by (cases c) (simp add: sum_vec_def combine_def)
next
  case (Suc n)
  show ?case
    by (simp add: Suc light_sample_eq del: mult_Suc_right) (simp add: combine_def sum_vec_def)
qed

lemma light_scan_find:
  "light_scan wd hit js (c, g)
   = (case find (\<lambda>j. emission_power (material (objects (the_scene wd) ! j)) \<noteq> 0 \<and> int j \<noteq> object hit) js of
        None \<Rightarrow> (c, g)
      | Some j \<Rightarrow>
          (scale (combine c (sum_vec (map (\<lambda>k. shadow_light (the_scene wd) (shadow_ray wd hit j g k))
                     [0..<5])) 1 1) (1 / 5), g + 15))"
proof (induction js)
  case Nil
  show ?case by simp
next
  case (Cons j js)
  show ?case
  proof (cases "emission_power (material (objects (the_scene wd) ! j)) = 0 \<or> int j = object hit")
    case True
    then show ?thesis using Cons by auto
  next
    case False
    then show ?thesis by (simp add: light_fold_eq)
  qed
qed

text \<open>
  C6. In each bounce the direct-light estimate (the loop over \<open>j\<close>, started as
  \<open>bounce\<close> starts it) processes only the first object in scan order that has nonzero
  \<open>emission_power\<close> and is not the hit object: it traces 5 shadow rays offset 0.001 along
  their jittered directions, adds for each ray that hits any object that object's
  \<open>emission_color\<close> scaled by its \<open>emission_power\<close>, nothing for a ray that escapes,
  and \<open>sampled_light_color\<close> is that sum divided by 5. Without such an object it stays
  zero and no random number is drawn.
\<close>

theorem direct_light_first_emitter:
  "light_scan wd hit [0..<nat (num_objects (the_scene wd))] (Vector3 0 0 0, g)
   = (direct_light_spec wd hit g,
      (case emitter_target (the_scene wd) hit of None \<Rightarrow> g | Some j \<Rightarrow> g + 15))"
  by (simp add: light_scan_find direct_light_spec_def emitter_target_def combine_def sum_vec_def
      split: option.splits)

subsection \<open>Accumulation\<close>

lemma unat_255:
  "unat (255 :: 8 word) = 255"
  by simp

lemma bounce_empty_world:
  "bounce empty_world st = (False, st\<lparr>result := combine (result st) (mulv (Vector3 1 1 1) (contrib st)) 1 1\<rparr>)"
  if "in_ray st = ray_z"
proof -
  have t: "object (trace_ray (the_scene empty_world) (in_ray st)) = - 1"
    by (simp add: trace_ray_def empty_world_def initial_scene_def)
  have s: "sample_cubemap (skybox empty_world) (normalize (direction (in_ray st))) = Vector3 1 1 1"
    unfolding that
    by (simp add: ray_z_def normalize_z sample_cubemap_def cubemap_face_uv_def absf_def
        clamp_def trunc_def Let_def empty_world_def unat_255 del: unat_numeral)
  show ?thesis
    by (simp add: bounce_def t s Let_def)
qed

lemma pixel_empty_world:
  "pixel empty_world x y a g = (Vector3 1 1 1, g)"
proof -
  have five: "(5::nat) = Suc 4" by simp
  have st: "in_ray (pixel_start empty_world x y a g) = ray_z"
    by (simp add: pixel_start_def empty_world_def)
  show ?thesis
    unfolding pixel_def five pixel_loop.simps bounce_empty_world [OF st]
    by (simp add: pixel_start_def combine_def mulv_def clamp_def)
qed

lemma tile_indices_cell_1_0:
  "tile_indices worker_2x2_fresh 4 1 0 = [4]"
  by (simp add: tile_indices_def worker_2x2_fresh_def Let_def)

lemma tile_indices_cell_0_1:
  "tile_indices worker_2x2_fresh 4 0 1 = [1]"
  by (simp add: tile_indices_def worker_2x2_fresh_def Let_def)

lemma pass_with_stale_stride:
  "worker_pass empty_world True 4 True worker_2x2_fresh 0 = Inl OutOfBounds"
  by (simp add: worker_pass_def c_div_def worker_2x2_fresh_def Let_def worker_cell_def pixel_empty_world
      tile_indices_def splat_def eval_nat_numeral upt_rec combine_def)

lemma pass_with_own_stride:
  "worker_pass empty_world True 2 True worker_2x2_fresh 0
   = Inr (worker_2x2_fresh\<lparr>local_accum := Some (replicate 4 (Vector3 1 1 1)), local_accum_count := 1\<rparr>, 0)"
  by (simp add: worker_pass_def c_div_def worker_2x2_fresh_def Let_def worker_cell_def pixel_empty_world
      tile_indices_def splat_def eval_nat_numeral upt_rec combine_def)


lemma replicate_4:
  "replicate 4 x = [x, x, x, x]"
  by (simp add: eval_nat_numeral)
lemma replicate_2:
  "replicate 2 x = [x, x]"
  by (simp add: eval_nat_numeral)
lemma upt_0_4:
  "[0..<4] = [0, 1, 2, 3]"
  by (simp add: upt_rec)
lemma upt_0_2:
  "[0..<2] = [0, 1]"
  by (simp add: upt_rec)

lemma present_first_tick:
  "update_frame_texture empty_world True junk_cell 1 (shared_init 2 2) 0 = Inr (shared_2x2, 0)"
  by (simp add: update_frame_texture_def c_div_def shared_init_def shared_2x2_def trunc_def Let_def
      normalize_cell_def peek_def poke_def junk_cell_def scale_def replicate_4 upt_0_2)

lemma worker_first_merge:
  "worker_merge shared_2x2 (worker_init 1) = Inr (shared_2x2, worker_2x2_fresh, True)"
  by (simp add: worker_merge_def shared_2x2_def worker_init_def worker_2x2_fresh_def memset_zero_def)

lemma worker_first_pass:
  "worker_pass empty_world True 2 True worker_2x2_fresh 0 = Inr (worker_2x2_rendered, 0)"
  by (simp add: worker_pass_def c_div_def worker_2x2_fresh_def worker_2x2_rendered_def Let_def worker_cell_def pixel_empty_world
      tile_indices_def splat_def replicate_4 upt_0_2 upt_rec combine_def)

lemma present_after_shrink:
  "update_frame_texture empty_world True junk_cell 1 (shared_2x2\<lparr>screen_w := 1\<rparr>) 0 = Inr (shared_1x2, 0)"
  by (simp add: update_frame_texture_def c_div_def shared_2x2_def shared_1x2_def trunc_def Let_def
      normalize_cell_def peek_def poke_def junk_cell_def scale_def replicate_2 upt_0_2 upt_rec)

lemma worker_merge_after_shrink:
  "worker_merge shared_1x2 worker_2x2_rendered = Inr (shared_1x2_merged, worker_1x2_after, True)"
  by (simp add: worker_merge_def shared_1x2_def worker_2x2_rendered_def shared_1x2_merged_def worker_1x2_after_def memset_zero_def
      merge_cell_def junk_cell_def combine_def replicate_2 replicate_4 upt_0_2)


lemma replicate_6:
  "replicate 6 x = [x, x, x, x, x, x]"
  by (simp add: eval_nat_numeral)
lemma upt_0_3:
  "[0..<3] = [0, 1, 2]"
  by (simp add: upt_rec)
lemma upt_0_6:
  "[0..<6] = [0, 1, 2, 3, 4, 5]"
  by (simp add: upt_rec)

lemma present_after_widen:
  "update_frame_texture empty_world True junk_cell 1 (shared_2x2\<lparr>screen_w := 3\<rparr>) 0 = Inr (shared_3x2, 0)"
  by (simp add: update_frame_texture_def c_div_def shared_2x2_def shared_3x2_def trunc_def Let_def
      normalize_cell_def peek_def poke_def junk_cell_def scale_def replicate_6 upt_0_2 upt_0_3)

lemma worker_merge_after_widen:
  "worker_merge shared_3x2 worker_2x2_rendered = Inl OutOfBounds"
  by (simp add: worker_merge_def shared_3x2_def worker_2x2_rendered_def memset_zero_def
      merge_cell_def junk_cell_def combine_def replicate_6 replicate_4 upt_0_6)

text \<open>
  With the worker's own width as the stride, the clipping keeps every written index inside
  the \<open>local_frame_w \<times> local_frame_h\<close> cells of the local accumulator.
\<close>

lemma tile_indices_in_bounds:
  assumes s: "0 < tile_scale wk"
    and m: "idx \<in> set (tile_indices wk (local_frame_w wk) j i)"
  shows "0 \<le> idx \<and> idx < local_frame_w wk * local_frame_h wk"
proof -
  define W where "W = local_frame_w wk"
  define H where "H = local_frame_h wk"
  define sc where "sc = tile_scale wk"
  define tile_w where "tile_w = (if sc > W - int i * sc then W - int i * sc else sc)"
  define tile_h where "tile_h = (if sc > H - int j * sc then H - int j * sc else sc)"
  have "\<exists>g t. g < nat tile_h \<and> t < nat tile_w \<and> idx = (int j * sc + int g) * W + (int i * sc + int t)"
    using m unfolding tile_indices_def Let_def W_def H_def sc_def tile_w_def tile_h_def
    by auto
  then obtain g t where g: "g < nat tile_h" and t: "t < nat tile_w"
    and idx: "idx = (int j * sc + int g) * W + (int i * sc + int t)" by blast
  have s0: "0 < sc" using s by (simp add: sc_def)
  have tw: "tile_w \<le> W - int i * sc" by (simp add: tile_w_def)
  have th: "tile_h \<le> H - int j * sc" by (simp add: tile_h_def)
  have i0: "0 \<le> int i * sc" and j0: "0 \<le> int j * sc" using s0 by simp_all
  have ri: "0 \<le> int i * sc + int t" "int i * sc + int t < W"
    using t tw i0 by linarith+
  have rj: "0 \<le> int j * sc + int g" "int j * sc + int g \<le> H - 1"
    using g th j0 by linarith+
  have W0: "0 \<le> W" using ri by linarith
  have "(int j * sc + int g) * W \<le> (H - 1) * W"
    using rj(2) W0 by (rule mult_right_mono)
  then have up: "idx < W * H" using ri(2) by (simp add: idx algebra_simps)
  have "0 \<le> (int j * sc + int g) * W" using rj(1) W0 by simp
  then have "0 \<le> idx" using ri(1) by (simp add: idx)
  then show ?thesis using up by (simp add: W_def H_def)
qed

text \<open>
  C9 at a failing input. A worker at scale 1 has sized itself for a 2 by 2 frame (4
  cells). The index expression reads the global \<open>frame_w\<close> as the stride; when the
  presenter has meanwhile resized the frame to width 4, coarse cell \<open>(0, 1)\<close> (real
  pixel \<open>real_i = 0\<close>, \<open>real_j = 1\<close>, inside the 2 by 2 frame) is written at index 4,
  outside the local accumulator.
\<close>

theorem worker_pass_stale_stride_out_of_bounds:
  "worker_merge shared_2x2 (worker_init 1) = Inr (shared_2x2, worker_2x2_fresh, True)
   \<and> local_frame_w worker_2x2_fresh * local_frame_h worker_2x2_fresh = 4
   \<and> tile_indices worker_2x2_fresh 4 1 0 = [4]
   \<and> worker_pass empty_world True 4 True worker_2x2_fresh 0 = Inl OutOfBounds"
  using worker_first_merge pass_with_stale_stride tile_indices_cell_1_0
  by (simp add: worker_2x2_fresh_def)

theorem worker_pass_stale_stride_out_of_bounds_witness:
  "local_frame_w worker_2x2_fresh = 2 \<and> local_frame_h worker_2x2_fresh = 2
   \<and> local_accum worker_2x2_fresh = None
   \<and> worker_pass empty_world True 4 True worker_2x2_fresh 0 = Inl OutOfBounds"
  using worker_pass_stale_stride_out_of_bounds by (simp add: worker_2x2_fresh_def)

text \<open>
  C1 at a failing input. A worker renders its local buffer for a 2 by 2 frame under
  generation 0. The screen shrinks to 1 by 2; the presenter reallocates \<open>accum\<close> and
  resets \<open>accum_count\<close>, and leaves \<open>accum_generation\<close> at 0. The worker's next
  critical section finds equal generations and adds its 2 by 2 buffer and its weight into
  the new 1 by 2 accumulator.
\<close>

theorem worker_merge_after_resize_merges_stale:
  "worker_pass empty_world True 2 True worker_2x2_fresh 0 = Inr (worker_2x2_rendered, 0)
   \<and> update_frame_texture empty_world True junk_cell 1 (shared_2x2\<lparr>screen_w := 1\<rparr>) 0 = Inr (shared_1x2, 0)
   \<and> (local_frame_w worker_2x2_rendered, local_frame_h worker_2x2_rendered) = (2, 2)
   \<and> (frame_w shared_1x2, frame_h shared_1x2) = (1, 2)
   \<and> local_accum_generation worker_2x2_rendered = accum_generation shared_1x2
   \<and> worker_merge shared_1x2 worker_2x2_rendered = Inr (shared_1x2_merged, worker_1x2_after, True)
   \<and> accum_count shared_1x2_merged = accum_count shared_1x2 + local_accum_count worker_2x2_rendered
   \<and> accum shared_1x2_merged \<noteq> accum shared_1x2"
  using worker_first_pass present_after_shrink worker_merge_after_shrink
  by (simp add: worker_2x2_rendered_def shared_1x2_def shared_1x2_merged_def junk_cell_def)

theorem worker_merge_after_resize_merges_stale_witness:
  "local_frame_w worker_2x2_rendered = 2 \<and> frame_w shared_1x2 = 1
   \<and> accum_generation shared_1x2 = accum_generation shared_2x2
   \<and> worker_merge shared_1x2 worker_2x2_rendered = Inr (shared_1x2_merged, worker_1x2_after, True)
   \<and> accum_count shared_1x2_merged = 257 / 256"
  using worker_merge_after_resize_merges_stale
  by (simp add: worker_2x2_rendered_def shared_1x2_def shared_2x2_def shared_1x2_merged_def)

end
